theory Spec2Isabelle
  imports Complex_Main
begin

section \<open>JavaScript numbers\<close>

text \<open>
  A Number of the language is an IEEE 754 binary64 value: \<open>NaN\<close>, the two infinities,
  the two zeros and the finite non-zero values. \<open>Fin r\<close> stands for the finite value
  \<open>r\<close>, with \<open>Fin 0\<close> the positive zero; \<open>NegZero\<close> is the negative zero. Every
  arithmetic result is rounded to the nearest binary64 value, ties to even, as the
  language prescribes.
\<close>

datatype number = NaN | Fin rat | NegZero | PosInf | NegInf

text \<open>
  The binade of a magnitude: the exponent \<open>e\<close> with \<open>2^e \<le> m < 2^(e+1)\<close>, kept within
  the exponent range \<open>-1022 .. 1023\<close> of the format (below it the values are subnormal
  and share the spacing of the lowest binade). The search starts at the top exponent.
\<close>

fun expo_from :: "nat \<Rightarrow> int \<Rightarrow> rat \<Rightarrow> int" where
  "expo_from 0 e m = e"
| "expo_from (Suc n) e m = (if 2 powi e \<le> m then e else expo_from n (e - 1) m)"

definition expo :: "rat \<Rightarrow> int" where
  "expo m = expo_from 2045 1023 m"

definition roundHalfEven :: "rat \<Rightarrow> int" where
  "roundHalfEven x =
     (let f = \<lfloor>x\<rfloor>; d = x - of_int f
      in if d < 1 / 2 then f else if 1 / 2 < d then f + 1 else if even f then f else f + 1)"

text \<open>
  Rounding of a magnitude \<open>m \<ge> 0\<close>: the nearest multiple of the spacing \<open>2^(e-52)\<close> of
  its binade; a result of \<open>2^1024\<close> or more is an overflow to \<open>Infinity\<close>.
\<close>

definition roundMagnitude :: "rat \<Rightarrow> number" where
  "roundMagnitude m =
     (let q = 2 powi (expo m - 52);
          v = of_int (roundHalfEven (m / q)) * q
      in if 2 ^ 1024 \<le> v then PosInf else Fin v)"

fun num_neg :: "number \<Rightarrow> number" where
  "num_neg NaN = NaN"
| "num_neg (Fin a) = (if a = 0 then NegZero else Fin (- a))"
| "num_neg NegZero = Fin 0"
| "num_neg PosInf = NegInf"
| "num_neg NegInf = PosInf"

text \<open>The Number value for a rational: rounding is symmetric about zero.\<close>

definition round64 :: "rat \<Rightarrow> number" where
  "round64 r = (if r < 0 then num_neg (roundMagnitude (- r)) else roundMagnitude r)"

fun isNaN :: "number \<Rightarrow> bool" where
  "isNaN NaN = True"
| "isNaN _ = False"

fun isFinite :: "number \<Rightarrow> bool" where
  "isFinite (Fin _) = True"
| "isFinite NegZero = True"
| "isFinite _ = False"

fun isInf :: "number \<Rightarrow> bool" where
  "isInf PosInf = True"
| "isInf NegInf = True"
| "isInf _ = False"

fun isZero :: "number \<Rightarrow> bool" where
  "isZero (Fin a) = (a = 0)"
| "isZero NegZero = True"
| "isZero _ = False"

text \<open>The sign bit.\<close>

fun isNeg :: "number \<Rightarrow> bool" where
  "isNeg (Fin a) = (a < 0)"
| "isNeg NegZero = True"
| "isNeg NegInf = True"
| "isNeg _ = False"

text \<open>The rational a finite Number denotes.\<close>

fun ratOf :: "number \<Rightarrow> rat" where
  "ratOf (Fin a) = a"
| "ratOf _ = 0"

text \<open>
  \<open>+\<close>: \<open>NaN\<close> propagates, opposite infinities give \<open>NaN\<close>, the sum of two zeros is
  negative only when both are, and every other finite sum is the rounded exact sum (an
  exact sum of zero is the positive zero).
\<close>

definition num_add :: "number \<Rightarrow> number \<Rightarrow> number" where
  "num_add a b =
     (if isNaN a \<or> isNaN b then NaN
      else if isInf a \<and> isInf b then (if isNeg a = isNeg b then a else NaN)
      else if isInf a then a
      else if isInf b then b
      else if isZero a \<and> isZero b then (if isNeg a \<and> isNeg b then NegZero else Fin 0)
      else round64 (ratOf a + ratOf b))"

text \<open>
  \<open>*\<close>: \<open>NaN\<close> propagates, infinity times zero is \<open>NaN\<close>, the sign of every other
  result is the exclusive or of the signs, and a finite non-zero product is the rounded
  exact product.
\<close>

definition num_mul :: "number \<Rightarrow> number \<Rightarrow> number" where
  "num_mul a b =
     (if isNaN a \<or> isNaN b then NaN
      else if (isInf a \<and> isZero b) \<or> (isZero a \<and> isInf b) then NaN
      else if isInf a \<or> isInf b then (if isNeg a \<noteq> isNeg b then NegInf else PosInf)
      else if isZero a \<or> isZero b then (if isNeg a \<noteq> isNeg b then NegZero else Fin 0)
      else round64 (ratOf a * ratOf b))"

text \<open>
  The operator \<open><=\<close>: false as soon as one side is \<open>NaN\<close>; the two zeros compare
  equal.
\<close>

definition num_le :: "number \<Rightarrow> number \<Rightarrow> bool" where
  "num_le a b =
     (if isNaN a \<or> isNaN b then False
      else if a = NegInf \<or> b = PosInf then True
      else if a = PosInf \<or> b = NegInf then False
      else ratOf a \<le> ratOf b)"

text \<open>
  \<open>+\<close> and \<open>*\<close> on Numbers, and the literal \<open>0\<close>, are written with the usual
  symbols.
\<close>

instantiation number :: "{zero, plus, times}"
begin

definition zero_number :: number where
  "zero_number = Fin 0"

definition plus_number :: "number \<Rightarrow> number \<Rightarrow> number" where
  "plus_number a b = num_add a b"

definition times_number :: "number \<Rightarrow> number \<Rightarrow> number" where
  "times_number a b = num_mul a b"

instance ..

end

text \<open>A Number that is a natural number: finite, not negative, without fraction.\<close>

fun isNatural :: "number \<Rightarrow> bool" where
  "isNatural (Fin a) = (0 \<le> a \<and> of_int \<lfloor>a\<rfloor> = a)"
| "isNatural _ = False"

section \<open>Strings: trimming and the numeric parsers of the language\<close>

text \<open>
  A string of the language is a sequence of UTF-16 code units, here natural numbers;
  \<open>str\<close> gives the code units of an ASCII literal.
\<close>

type_synonym jsstring = "nat list"

definition str :: "string \<Rightarrow> jsstring" where
  "str s = map of_char s"

text \<open>
  The white space that \<open>trim\<close>, \<open>parseFloat\<close> and \<open>parseInt\<close> strip: the
  \<open>WhiteSpace\<close> and \<open>LineTerminator\<close> code points of the language (TAB, LF, VT, FF, CR,
  SP, NBSP, U+1680, U+2000 to U+200A, LS, PS, U+202F, U+205F, U+3000 and the byte order
  mark U+FEFF).
\<close>

definition isWhiteSpace :: "nat \<Rightarrow> bool" where
  "isWhiteSpace c \<longleftrightarrow>
     c \<in> set [0x09, 0x0A, 0x0B, 0x0C, 0x0D, 0x20, 0xA0, 0x1680, 0x2000, 0x2001, 0x2002,
              0x2003, 0x2004, 0x2005, 0x2006, 0x2007, 0x2008, 0x2009, 0x200A, 0x2028,
              0x2029, 0x202F, 0x205F, 0x3000, 0xFEFF]"

definition trimStart :: "jsstring \<Rightarrow> jsstring" where
  "trimStart s = dropWhile isWhiteSpace s"

definition trim :: "jsstring \<Rightarrow> jsstring" where
  "trim s = rev (dropWhile isWhiteSpace (rev (dropWhile isWhiteSpace s)))"

definition isDigit :: "nat \<Rightarrow> bool" where
  "isDigit c \<longleftrightarrow> of_char CHR ''0'' \<le> c \<and> c \<le> of_char CHR ''9''"

definition digitValue :: "nat \<Rightarrow> nat" where
  "digitValue c = c - of_char CHR ''0''"

definition digitsValue :: "jsstring \<Rightarrow> nat" where
  "digitsValue ds = foldl (\<lambda>acc c. 10 * acc + digitValue c) 0 ds"

text \<open>An optional leading sign: \<open>True\<close> for a minus, with the rest of the string.\<close>

fun takeSign :: "jsstring \<Rightarrow> bool \<times> jsstring" where
  "takeSign [] = (False, [])"
| "takeSign (c # r) =
     (if c = of_char CHR ''-'' then (True, r)
      else if c = of_char CHR ''+'' then (False, r)
      else (False, c # r))"

text \<open>
  The Number for a sign and a magnitude read from a literal: the magnitude rounded, with
  the sign applied afterwards, so that \<open>-0\<close> is the negative zero.
\<close>

definition signedNumber :: "bool \<Rightarrow> rat \<Rightarrow> number" where
  "signedNumber neg m = (if neg then num_neg (round64 m) else round64 m)"

text \<open>
  \<open>parseInt(s, 10)\<close>: leading white space is skipped, then an optional sign, then the
  longest run of decimal digits; no digit gives \<open>NaN\<close>. With radix 10 no \<open>0x\<close> prefix
  is recognised. The result is the Number value for the integer read.
\<close>

definition parseInt :: "jsstring \<Rightarrow> number" where
  "parseInt s =
     (let (neg, u) = takeSign (trimStart s);
          z = takeWhile isDigit u
      in if z = [] then NaN else signedNumber neg (of_nat (digitsValue z)))"

text \<open>
  The exponent part of a decimal literal: \<open>e\<close> or \<open>E\<close>, an optional sign and at least
  one digit; anything else is no exponent and is left unread.
\<close>

definition exponentPart :: "jsstring \<Rightarrow> int" where
  "exponentPart r =
     (case r of
        [] \<Rightarrow> 0
      | c # r' \<Rightarrow>
          if c = of_char CHR ''e'' \<or> c = of_char CHR ''E'' then
            (let (neg, u) = takeSign r'; ds = takeWhile isDigit u
             in if ds = [] then 0
                else if neg then - int (digitsValue ds) else int (digitsValue ds))
          else 0)"

definition scale10 :: "rat \<Rightarrow> int \<Rightarrow> rat" where
  "scale10 v e = (if 0 \<le> e then v * 10 ^ nat e else v / 10 ^ nat (- e))"

text \<open>
  \<open>parseFloat(s)\<close>: leading white space is skipped, then the longest prefix that is a
  \<open>StrDecimalLiteral\<close> is read: an optional sign followed by \<open>Infinity\<close>, or by
  digits with an optional fraction and exponent, or by a fraction starting with the
  point. No such prefix gives \<open>NaN\<close>. The result is the Number value for the
  mathematical value of the literal: the nearest binary64 value, zero for a literal
  too small and \<open>Infinity\<close> for one too large. (For a literal of more than twenty
  significant digits the language also allows an implementation to round the digits
  first; the exact value, taken here, is always allowed.)
\<close>

definition parseFloat :: "jsstring \<Rightarrow> number" where
  "parseFloat s =
     (let (neg, u) = takeSign (trimStart s)
      in if take 8 u = str ''Infinity'' then (if neg then NegInf else PosInf)
         else
           (let ip = takeWhile isDigit u;
                r1 = dropWhile isDigit u;
                point = (r1 \<noteq> [] \<and> hd r1 = of_char CHR ''.'');
                fp = (if point then takeWhile isDigit (tl r1) else []);
                r2 = (if point then dropWhile isDigit (tl r1) else r1)
            in if ip = [] \<and> fp = [] then NaN
               else signedNumber neg
                  (scale10 (of_nat (digitsValue (ip @ fp)) / 10 ^ length fp) (exponentPart r2))))"

text \<open>
  \<open>String.prototype.replace\<close> with a string pattern: the first occurrence of the pattern
  is replaced, a string without the pattern is returned as it is.
\<close>

fun replace :: "jsstring \<Rightarrow> jsstring \<Rightarrow> jsstring \<Rightarrow> jsstring" where
  "replace pat rep [] = (if pat = [] then rep else [])"
| "replace pat rep (c # cs) =
     (if take (length pat) (c # cs) = pat then rep @ drop (length pat) (c # cs)
      else c # replace pat rep cs)"

definition digitChar :: "nat \<Rightarrow> nat" where
  "digitChar n = of_char CHR ''0'' + n mod 10"

text \<open>The decimal text of a natural number, as a template literal interpolates it.\<close>

function natToString :: "nat \<Rightarrow> jsstring" where
  "natToString n =
     (if n < 10 then [digitChar n] else natToString (n div 10) @ [digitChar n])"
  by pat_completeness auto
termination
  by (relation "measure (\<lambda>n. n)") auto

section \<open>Application state\<close>

text \<open>
  A line item as the script stores it. The identifier is the millisecond reading of the
  clock, an integer; price and quantity are Numbers.
\<close>

record product =
  product_id :: int
  name :: jsstring
  price :: number
  qty :: number

text \<open>
  One row of the quotation table: the class tokens of the row, then for each cell the
  value the template interpolates and, for the two cells that have one, the class that
  governs visibility. \<open>indexCell\<close> and \<open>qtyCell\<close> hold the number that is interpolated,
  \<open>removeArg\<close> the identifier written into the \<open>deleteProduct\<close> handler of the button.
\<close>

record table_row =
  classList :: "jsstring list"
  indexCell :: nat
  nameCell :: jsstring
  qtyCell :: number
  qtyClass :: jsstring
  priceCell :: jsstring
  priceClass :: jsstring
  totalCell :: jsstring
  removeArg :: int

text \<open>
  The two globals of the script (\<open>products\<close>, \<open>isSummaryMode\<close>) together with the parts of
  the page it reads and writes, each named by its element id: the values of the input
  fields, the text of the display fields, the rows of the table body, the class tokens of
  the unit-price header and the \<open>colspan\<close> attribute of each first footer cell
  (\<open>None\<close> when the attribute is absent). \<open>console\<close> collects what is written with
  \<open>console.error\<close>; \<open>printed\<close> records, for each call of \<open>window.print\<close>, the value
  of \<open>isSummaryMode\<close> at the moment of the call.
\<close>

record state =
  products :: "product list"
  isSummaryMode :: bool
  clientName :: jsstring
  clientAddress :: jsstring
  clientContact :: jsstring
  displayClientName :: jsstring
  displayClientAddress :: jsstring
  displayClientContact :: jsstring
  productName :: jsstring
  unitPrice :: jsstring
  quantity :: jsstring
  quotationTableBody :: "table_row list"
  subTotal :: jsstring
  vatAmount :: jsstring
  grandTotal :: jsstring
  summaryButton :: jsstring
  headerPrice :: "jsstring list"
  tableFooterCells :: "nat option list"
  console :: "jsstring list"
  printed :: "bool list"

text \<open>
  \<open>Intl.NumberFormat.format\<close> belongs to the platform; every operation that renders
  takes it as a parameter.
\<close>

type_synonym formatter = "number \<Rightarrow> jsstring"

text \<open>The literal \<open>0.18\<close>: the Number value nearest to 18/100.\<close>

definition VAT_RATE :: number where
  "VAT_RATE = round64 (18 / 100)"

definition classList_add :: "jsstring \<Rightarrow> jsstring list \<Rightarrow> jsstring list" where
  "classList_add tok cs = (if tok \<in> set cs then cs else cs @ [tok])"

definition classList_remove :: "jsstring \<Rightarrow> jsstring list \<Rightarrow> jsstring list" where
  "classList_remove tok cs = filter (\<lambda>t. t \<noteq> tok) cs"

section \<open>Operations\<close>

definition orDefault :: "jsstring \<Rightarrow> jsstring \<Rightarrow> jsstring" where
  "orDefault s d = (if s = [] then d else s)"

definition saveClientInfo :: "state \<Rightarrow> state" where
  "saveClientInfo st =
     (let nm = orDefault (trim (clientName st)) (str ''Client Name Here'');
          address = orDefault (trim (clientAddress st)) (str ''Client Address Here'');
          contact = orDefault (trim (clientContact st)) (str ''Client Contact Info Here'')
      in st\<lparr>displayClientName := nm,
            displayClientAddress := address,
            displayClientContact := (str ''Attn: '') @ contact\<rparr>)"

definition calculateTotals :: "formatter \<Rightarrow> state \<Rightarrow> state" where
  "calculateTotals fmt st =
     (let subtotal = foldl (\<lambda>acc p. acc + price p * qty p) 0 (products st);
          vat = subtotal * VAT_RATE;
          total = subtotal + vat
      in st\<lparr>subTotal := fmt subtotal, vatAmount := fmt vat, grandTotal := fmt total\<rparr>)"

definition renderRow :: "formatter \<Rightarrow> bool \<Rightarrow> nat \<Rightarrow> product \<Rightarrow> table_row" where
  "renderRow fmt summary index p =
     (let rowTotal = price p * qty p;
          rowClass = [(str ''hover:bg-gray-50''), (str ''transition''), (str ''duration-150'')];
          qtyCls = (str ''hidden lg:table-cell'');
          priceCls = (if summary then (str ''hidden'') else (str ''hidden lg:table-cell''))
      in \<lparr>classList =
            (if index = 9 then classList_add (str ''page-break-after-ten'') rowClass else rowClass),
          indexCell = index + 1,
          nameCell = name p,
          qtyCell = qty p,
          qtyClass = qtyCls,
          priceCell = replace (str ''LKR'') [] (fmt (price p)),
          priceClass = priceCls,
          totalCell = fmt rowTotal,
          removeArg = product_id p\<rparr>)"

text \<open>The loop of \<open>renderProducts\<close>: one row for each product, with its 0-based index.\<close>

definition tableRows :: "formatter \<Rightarrow> bool \<Rightarrow> product list \<Rightarrow> table_row list" where
  "tableRows fmt summary ps =
     map (\<lambda>(index, p). renderRow fmt summary index p) (enumerate 0 ps)"

definition renderProducts :: "formatter \<Rightarrow> state \<Rightarrow> state" where
  "renderProducts fmt st =
     calculateTotals fmt
       (st\<lparr>quotationTableBody := tableRows fmt (isSummaryMode st) (products st)\<rparr>)"

definition validationError :: jsstring where
  "validationError =
     (str ''Validation Error: Please enter a valid name, price (>0), and quantity (>0).'')"

text \<open>
  \<open>addProduct\<close> reads the three input fields and the clock (\<open>now\<close> is what
  \<open>Date.now()\<close> returns in this call). A rejected input is logged and nothing else
  happens; an accepted one is pushed, the inputs are reset and the table is rendered.
\<close>

definition addProduct :: "formatter \<Rightarrow> int \<Rightarrow> state \<Rightarrow> state" where
  "addProduct fmt now st =
     (let nm = trim (productName st);
          pr = parseFloat (unitPrice st);
          q = parseInt (quantity st)
      in if nm = [] \<or> isNaN pr \<or> num_le pr 0 \<or> isNaN q \<or> num_le q 0
         then st\<lparr>console := console st @ [validationError]\<rparr>
         else renderProducts fmt
                (st\<lparr>products := products st @ [\<lparr>product_id = now, name = nm, price = pr, qty = q\<rparr>],
                    productName := [],
                    unitPrice := [],
                    quantity := (str ''1'')\<rparr>))"

text \<open>
  \<open>deleteProduct\<close> has no \<open>return\<close> statement: a call evaluates to \<open>undefined\<close>.
  The value is part of the model because the specification of the removal speaks of it.
\<close>

datatype jsvalue = Undefined | Boolean bool

definition deleteProduct :: "formatter \<Rightarrow> int \<Rightarrow> state \<Rightarrow> jsvalue \<times> state" where
  "deleteProduct fmt i st =
     (Undefined,
      renderProducts fmt (st\<lparr>products := filter (\<lambda>p. product_id p \<noteq> i) (products st)\<rparr>))"

definition toggleSummaryView :: "formatter \<Rightarrow> state \<Rightarrow> state" where
  "toggleSummaryView fmt st =
     (let st1 = st\<lparr>isSummaryMode := \<not> isSummaryMode st\<rparr>;
          st2 = st1\<lparr>summaryButton :=
                   (if isSummaryMode st1 then (str ''Exit Summary View (Show Details)'')
                    else (str ''Toggle Summary View (Show Totals Only)''))\<rparr>;
          totalFooterColumns = (4::nat);
          st3 = (if isSummaryMode st2
                 then st2\<lparr>headerPrice := classList_add (str ''hidden'') (headerPrice st2),
                          tableFooterCells :=
                            map (\<lambda>cell. Some (totalFooterColumns - 1)) (tableFooterCells st2)\<rparr>
                 else st2\<lparr>headerPrice := classList_remove (str ''hidden'') (headerPrice st2),
                          tableFooterCells :=
                            map (\<lambda>cell. Some totalFooterColumns) (tableFooterCells st2)\<rparr>)
      in renderProducts fmt st3)"

definition window_print :: "state \<Rightarrow> state" where
  "window_print st = st\<lparr>printed := printed st @ [isSummaryMode st]\<rparr>"

definition printQuotation :: "formatter \<Rightarrow> state \<Rightarrow> state" where
  "printQuotation fmt st =
     window_print (if isSummaryMode st then toggleSummaryView fmt st else st)"

section \<open>A session\<close>

text \<open>
  While the script is evaluated the clock is read twelve times, once for each seeded
  item; \<open>clock k\<close> is the \<open>k\<close>-th reading. Readings of the clock are time values,
  integers far below \<open>2^53\<close>, on which the additions of the seed loop are exact: the
  identifiers are modelled as integers. The parameter \<open>page\<close> is the document as
  the markup of the page gives it; the script sets its two globals, renders, and renders
  again with the client fields when the document is loaded.
\<close>

definition seedProducts :: "(nat \<Rightarrow> int) \<Rightarrow> product list" where
  "seedProducts clock =
     [\<lparr>product_id = clock 1 + 1, name = (str ''ERP System License (1 Year)''),
       price = Fin 85000, qty = Fin 1\<rparr>,
      \<lparr>product_id = clock 2 + 2, name = (str ''On-site Implementation Service''),
       price = Fin 50000, qty = Fin 1\<rparr>,
      \<lparr>product_id = clock 3 + 3, name = (str ''Custom Reporting Module Development''),
       price = Fin 120000, qty = Fin 1\<rparr>]
     @ map (\<lambda>i. \<lparr>product_id = clock i + int i,
                  name = (str ''Software License Maintenance Package '') @ natToString i,
                  price = Fin 15000,
                  qty = Fin (of_nat (i mod 3 + 1))\<rparr>) [4..<13]"

definition loadScript :: "formatter \<Rightarrow> (nat \<Rightarrow> int) \<Rightarrow> state \<Rightarrow> state" where
  "loadScript fmt clock page =
     renderProducts fmt (page\<lparr>products := seedProducts clock, isSummaryMode := False\<rparr>)"

definition domContentLoaded :: "formatter \<Rightarrow> state \<Rightarrow> state" where
  "domContentLoaded fmt st = saveClientInfo (renderProducts fmt st)"

definition initial :: "formatter \<Rightarrow> (nat \<Rightarrow> int) \<Rightarrow> state \<Rightarrow> state" where
  "initial fmt clock page = domContentLoaded fmt (loadScript fmt clock page)"

text \<open>
  The actions of a user: filling the three fields and pressing the add button (with the
  reading of the clock in that call), pressing the remove button of a row, the summary
  toggle and the print button.
\<close>

datatype action =
    Add jsstring jsstring jsstring int
  | Delete int
  | Toggle
  | Print

definition fillForm :: "jsstring \<Rightarrow> jsstring \<Rightarrow> jsstring \<Rightarrow> state \<Rightarrow> state" where
  "fillForm n p q st = st\<lparr>productName := n, unitPrice := p, quantity := q\<rparr>"

fun step :: "formatter \<Rightarrow> state \<Rightarrow> action \<Rightarrow> state" where
  "step fmt st (Add n p q now) = addProduct fmt now (fillForm n p q st)"
| "step fmt st (Delete i) = snd (deleteProduct fmt i st)"
| "step fmt st Toggle = toggleSummaryView fmt st"
| "step fmt st Print = printQuotation fmt st"

definition run :: "formatter \<Rightarrow> action list \<Rightarrow> state \<Rightarrow> state" where
  "run fmt acts st = foldl (step fmt) st acts"

text \<open>A page with nothing in it, for concrete evaluations.\<close>

definition blankPage :: state where
  "blankPage =
     \<lparr>products = [], isSummaryMode = False,
      clientName = [], clientAddress = [], clientContact = [],
      displayClientName = [], displayClientAddress = [], displayClientContact = [],
      productName = [], unitPrice = [], quantity = [],
      quotationTableBody = [],
      subTotal = [], vatAmount = [], grandTotal = [],
      summaryButton = [],
      headerPrice = [],
      tableFooterCells = [None, None, None],
      console = [], printed = []\<rparr>"

text \<open>
  A formatter for concrete evaluations: two decimals, rounded half away from zero as
  the platform's formatter does, without its grouping and currency code.
\<close>

definition fixed2 :: formatter where
  "fixed2 n =
     (case n of
        NaN \<Rightarrow> (str ''NaN'')
      | PosInf \<Rightarrow> (str ''Infinity'')
      | NegInf \<Rightarrow> (str ''-Infinity'')
      | NegZero \<Rightarrow> (str ''-0.00'')
      | Fin r \<Rightarrow>
          (let c = nat \<lfloor>\<bar>r\<bar> * 100 + 1 / 2\<rfloor>
           in (if r < 0 then (str ''-'') else [])
              @ natToString (c div 100) @ (str ''.'') @ [digitChar (c div 10), digitChar c]))"

text \<open>The state the specification's scenario starts from: the three named items.\<close>

definition scenarioItems :: "product list" where
  "scenarioItems =
     [\<lparr>product_id = 1, name = (str ''License''), price = Fin 85000, qty = Fin 1\<rparr>,
      \<lparr>product_id = 2, name = (str ''Service''), price = Fin 50000, qty = Fin 1\<rparr>,
      \<lparr>product_id = 3, name = (str ''Module''), price = Fin 120000, qty = Fin 1\<rparr>]"

text \<open>The scenario's page after one toggle: a state in summary mode.\<close>

definition summaryPage :: state where
  "summaryPage = toggleSummaryView fixed2 (blankPage\<lparr>products := scenarioItems\<rparr>)"

text \<open>The scenario's page: the three named items on an otherwise blank page.\<close>

definition scenarioPage :: state where
  "scenarioPage = blankPage\<lparr>products := scenarioItems\<rparr>"

text \<open>A row carries the page-break marker when the class token is on the row.\<close>

definition pageBreak :: "table_row \<Rightarrow> bool" where
  "pageBreak r \<longleftrightarrow> (str ''page-break-after-ten'') \<in> set (classList r)"

text \<open>The page shows the current products: rendering again changes nothing.\<close>

definition rendered :: "formatter \<Rightarrow> state \<Rightarrow> bool" where
  "rendered fmt st \<longleftrightarrow> renderProducts fmt st = st"

text \<open>
  The visible effects of a view mode on a state: whether the unit-price header carries
  the \<open>hidden\<close> token; the class of the unit-price cell of the rows, one row for each
  product of the store; and the \<open>colspan\<close> of the first footer cells.
\<close>

definition layoutFor :: "bool \<Rightarrow> state \<Rightarrow> bool" where
  "layoutFor summary st \<longleftrightarrow>
     (((str ''hidden'') \<in> set (headerPrice st)) = summary) \<and>
     map priceClass (quotationTableBody st) =
       replicate (length (products st))
         (if summary then (str ''hidden'') else (str ''hidden lg:table-cell'')) \<and>
     tableFooterCells st =
       replicate (length (tableFooterCells st)) (Some (if summary then 3 else 4))"

text \<open>
  The markup of the page is not part of the script. \<open>markupDetailed\<close> says that it
  starts in the detailed layout: the unit-price header without the \<open>hidden\<close> token
  and every first footer cell spanning four columns.
\<close>

definition markupDetailed :: "state \<Rightarrow> bool" where
  "markupDetailed page \<longleftrightarrow>
     (str ''hidden'') \<notin> set (headerPrice page) \<and>
     tableFooterCells page = replicate (length (tableFooterCells page)) (Some 4)"

text \<open>The header and the footer agree with the view mode of the state.\<close>

definition headerFooterMatch :: "state \<Rightarrow> bool" where
  "headerFooterMatch st \<longleftrightarrow>
     (((str ''hidden'') \<in> set (headerPrice st)) = isSummaryMode st) \<and>
     tableFooterCells st =
       replicate (length (tableFooterCells st)) (Some (if isSummaryMode st then 3 else 4))"

text \<open>A blank page whose three footer cells span four columns.\<close>

definition markupPage :: state where
  "markupPage = blankPage\<lparr>tableFooterCells := [Some 4, Some 4, Some 4]\<rparr>"

section \<open>Rounding to binary64\<close>

text \<open>
  The exponent search finds the binade of a magnitude, so that a rounding can be
  evaluated from the binade and the nearest integer multiple of its spacing.
\<close>

lemma expo_from_unique:
  "e \<le> e0 \<Longrightarrow> e0 - int n \<le> e \<Longrightarrow> 2 powi e \<le> m \<Longrightarrow> m < 2 powi (e + 1)
   \<Longrightarrow> expo_from n e0 m = e"
proof (induction n arbitrary: e0)
  case 0
  then show ?case by simp
next
  case (Suc n)
  show ?case
  proof (cases "2 powi e0 \<le> m")
    case True
    with Suc.prems have "(2::rat) powi e0 < 2 powi (e + 1)" by linarith
    then have "e0 < e + 1"
      by (metis linorder_not_less power_int_increasing one_le_numeral)
    with Suc.prems True show ?thesis by simp
  next
    case False
    with Suc.prems have "(2::rat) powi e < 2 powi e0" by linarith
    then have "e < e0"
      by (metis linorder_not_less power_int_increasing one_le_numeral)
    with Suc.prems False have "expo_from n (e0 - 1) m = e"
      by (intro Suc.IH) auto
    with False show ?thesis by simp
  qed
qed

lemma expo_from_below:
  "m < 2 powi (e0 - int n) \<Longrightarrow> expo_from n e0 m = e0 - int n"
proof (induction n arbitrary: e0)
  case 0
  then show ?case by simp
next
  case (Suc n)
  have "(2::rat) powi (e0 - int (Suc n)) \<le> 2 powi e0"
    by (intro power_int_increasing) auto
  with Suc.prems have "\<not> 2 powi e0 \<le> m" by linarith
  moreover have "expo_from n (e0 - 1) m = e0 - 1 - int n"
    using Suc.prems by (intro Suc.IH) (simp add: algebra_simps)
  ultimately show ?case by simp
qed

lemma expo_unique:
  assumes "- 1022 \<le> e" "e \<le> 1023" "2 powi e \<le> m" "m < 2 powi (e + 1)"
  shows "expo m = e"
  using assms unfolding expo_def by (intro expo_from_unique) auto

lemma expo_subnormal:
  assumes "m < 2 powi (- 1022)"
  shows "expo m = - 1022"
  unfolding expo_def using expo_from_below [of m 1023 2045] assms by simp

lemma expo_from_top: "0 < n \<Longrightarrow> 2 powi e \<le> m \<Longrightarrow> expo_from n e m = e"
  by (cases n) simp_all

lemma expo_huge:
  assumes "2 powi 1023 \<le> m"
  shows "expo m = 1023"
  unfolding expo_def using assms by (intro expo_from_top) simp_all

lemma roundHalfEven_of_int [simp]: "roundHalfEven (of_int k) = k"
  by (simp add: roundHalfEven_def)

lemma roundHalfEven_0 [simp]: "roundHalfEven 0 = 0"
  using roundHalfEven_of_int [of 0] by simp

lemma roundHalfEven_near:
  assumes "of_int k - 1 / 2 < x" "x < of_int k + 1 / 2"
  shows "roundHalfEven x = k"
proof (cases "of_int k \<le> x")
  case True
  with assms have f: "\<lfloor>x\<rfloor> = k" by (intro floor_unique) auto
  with assms show ?thesis by (simp add: roundHalfEven_def)
next
  case False
  with assms have f: "\<lfloor>x\<rfloor> = k - 1" by (intro floor_unique) auto
  with assms False show ?thesis by (simp add: roundHalfEven_def)
qed

lemma roundHalfEven_tie:
  assumes "x = of_int k + 1 / 2"
  shows "roundHalfEven x = (if even k then k else k + 1)"
proof -
  from assms have f: "\<lfloor>x\<rfloor> = k" by (intro floor_unique) auto
  with assms show ?thesis by (simp add: roundHalfEven_def)
qed

lemma roundHalfEven_ge_floor: "\<lfloor>x\<rfloor> \<le> roundHalfEven x"
  by (simp add: roundHalfEven_def Let_def)

text \<open>Evaluation of a rounding once the binade of the magnitude is known.\<close>

lemma roundMagnitude_normal:
  assumes "- 1022 \<le> e" "e \<le> 1023" "2 powi e \<le> m" "m < 2 powi (e + 1)"
    and "roundHalfEven (m / 2 powi (e - 52)) = k"
    and "of_int k * 2 powi (e - 52) = v" and "v < 2 ^ 1024"
  shows "roundMagnitude m = Fin v"
  using assms expo_unique [of e m] by (simp add: roundMagnitude_def Let_def)

lemma roundMagnitude_subnormal:
  assumes "m < 2 powi (- 1022)"
    and "roundHalfEven (m / 2 powi (- 1074)) = k"
    and "of_int k * 2 powi (- 1074) = v" and "v < 2 ^ 1024"
  shows "roundMagnitude m = Fin v"
  using assms expo_subnormal [of m] by (simp add: roundMagnitude_def Let_def)

lemma roundMagnitude_overflow:
  assumes "2 ^ 1024 \<le> m"
  shows "roundMagnitude m = PosInf"
proof -
  have "(2::rat) powi 1023 \<le> 2 ^ 1024" by simp
  with assms have "2 powi 1023 \<le> m" by linarith
  then have e: "expo m = 1023" by (rule expo_huge)
  have "(2::rat) ^ 53 = 2 ^ 1024 / 2 ^ 971"
    by (simp flip: power_diff)
  also have "\<dots> \<le> m / 2 ^ 971"
    using assms by (simp add: divide_right_mono)
  finally have "of_int (2 ^ 53) \<le> m / 2 ^ 971" by simp
  then have "2 ^ 53 \<le> \<lfloor>m / 2 ^ 971\<rfloor>" by (simp only: le_floor_iff)
  with roundHalfEven_ge_floor [of "m / 2 ^ 971"]
  have "2 ^ 53 \<le> roundHalfEven (m / 2 ^ 971)" by linarith
  then have "(of_int (2 ^ 53) :: rat) \<le> of_int (roundHalfEven (m / 2 ^ 971))"
    by (simp only: of_int_le_iff)
  then have "(2::rat) ^ 53 * 2 ^ 971 \<le> of_int (roundHalfEven (m / 2 ^ 971)) * 2 ^ 971"
    by (simp add: mult_right_mono)
  moreover have "(2::rat) ^ 53 * 2 ^ 971 = 2 ^ 1024"
    by (simp flip: power_add)
  ultimately have "(2::rat) ^ 1024 \<le> of_int (roundHalfEven (m / 2 ^ 971)) * 2 ^ 971"
    by simp
  then show ?thesis
    by (simp add: roundMagnitude_def Let_def e)
qed

lemma pow2_below_53:
  assumes "(2::nat) ^ e < 2 ^ 53"
  shows "e \<le> 52"
proof (rule ccontr)
  assume "\<not> e \<le> 52"
  then have "53 \<le> e" by simp
  then have "(2::nat) ^ 53 \<le> 2 ^ e"
    by (rule power_increasing) simp
  with assms show False by linarith
qed

lemma powi_quantum:
  assumes "e \<le> 52"
  shows "(2::rat) powi (int e - 52) = 1 / 2 ^ (52 - e)"
proof -
  have "int e - 52 = - int (52 - e)" using assms by simp
  then have "(2::rat) powi (int e - 52) = inverse (2 powi int (52 - e))"
    by (simp only: power_int_minus)
  also have "\<dots> = 1 / 2 ^ (52 - e)"
    by (simp only: power_int_of_nat inverse_eq_divide)
  finally show ?thesis .
qed

text \<open>Natural numbers below \<open>2^53\<close> are binary64 values: rounding leaves them alone.\<close>

lemma roundMagnitude_nat:
  assumes "n < 2 ^ 53"
  shows "roundMagnitude (of_nat n) = Fin (of_nat n)"
proof (cases "n = 0")
  case True
  have "roundMagnitude 0 = Fin 0"
    by (rule roundMagnitude_subnormal [where k = 0]) simp_all
  with True show ?thesis by simp
next
  case False
  then have "1 \<le> n" by simp
  from ex_power_ivl1 [OF _ this, of 2] obtain e where e: "2 ^ e \<le> n" "n < 2 ^ (e + 1)"
    by auto
  from e(1) assms have "(2::nat) ^ e < 2 ^ 53" by linarith
  then have e52: "e \<le> 52" by (rule pow2_below_53)
  have lo: "(2::rat) powi int e \<le> of_nat n"
  proof -
    have "(of_nat (2 ^ e) :: rat) \<le> of_nat n"
      using e(1) by (simp only: of_nat_le_iff)
    then show ?thesis by simp
  qed
  have hi: "(of_nat n :: rat) < 2 powi (int e + 1)"
  proof -
    have "(of_nat n :: rat) < of_nat (2 ^ (e + 1))"
      using e(2) by (simp only: of_nat_less_iff)
    also have "\<dots> = 2 powi (int (e + 1))"
      by (simp only: power_int_of_nat of_nat_power of_nat_numeral)
    finally show ?thesis by (simp only: of_nat_add of_nat_1)
  qed
  note q = powi_quantum [OF e52]
  have scaled: "of_nat n / (2::rat) powi (int e - 52) = of_int (int (n * 2 ^ (52 - e)))"
    by (simp add: q)
  show ?thesis
  proof (rule roundMagnitude_normal [where e = "int e" and k = "int (n * 2 ^ (52 - e))"])
    show "- 1022 \<le> int e" "int e \<le> 1023" using e52 by simp_all
    show "2 powi int e \<le> (of_nat n :: rat)" by (rule lo)
    show "(of_nat n :: rat) < 2 powi (int e + 1)" by (rule hi)
    show "roundHalfEven (of_nat n / 2 powi (int e - 52)) = int (n * 2 ^ (52 - e))"
      unfolding scaled by (rule roundHalfEven_of_int)
    show "of_int (int (n * 2 ^ (52 - e))) * 2 powi (int e - 52) = (of_nat n :: rat)"
      by (simp add: q)
    have "(of_nat n :: rat) < of_nat (2 ^ 53)"
      using assms by (simp only: of_nat_less_iff)
    also have "\<dots> = 2 ^ 53"
      by (simp only: of_nat_power of_nat_numeral)
    also have "\<dots> < (2::rat) ^ 1024"
      by (rule power_strict_increasing) simp_all
    finally show "(of_nat n :: rat) < 2 ^ 1024" .
  qed
qed

lemma natural_rat:
  assumes "0 \<le> r" "of_int \<lfloor>r\<rfloor> = r"
  shows "r = of_nat (nat \<lfloor>r\<rfloor>)"
proof -
  from assms(1) have nn: "0 \<le> \<lfloor>r\<rfloor>" by (simp only: zero_le_floor)
  have "r = of_int \<lfloor>r\<rfloor>" using assms(2) by (rule sym)
  also have "\<dots> = of_nat (nat \<lfloor>r\<rfloor>)" using nn by (simp only: of_nat_nat)
  finally show ?thesis .
qed

lemma round64_natural:
  assumes "0 \<le> r" "of_int \<lfloor>r\<rfloor> = r" "r < 2 ^ 53"
  shows "round64 r = Fin r"
proof -
  let ?n = "nat \<lfloor>r\<rfloor>"
  have r: "r = of_nat ?n" using assms by (intro natural_rat)
  have "(of_nat ?n :: rat) < of_nat (2 ^ 53)"
    using assms r by (simp only: of_nat_power of_nat_numeral)
  then have "?n < 2 ^ 53" by (simp only: of_nat_less_iff)
  then have "roundMagnitude (of_nat ?n) = Fin (of_nat ?n)" by (rule roundMagnitude_nat)
  with r have "roundMagnitude r = Fin r" by simp
  with assms show ?thesis by (simp add: round64_def)
qed

lemma isNatural_Fin:
  "isNatural x \<Longrightarrow> x = Fin (ratOf x) \<and> 0 \<le> ratOf x \<and> of_int \<lfloor>ratOf x\<rfloor> = ratOf x"
  by (cases x) simp_all

lemma natural_sum:
  assumes "of_int \<lfloor>a\<rfloor> = (a::rat)" "of_int \<lfloor>b\<rfloor> = b"
  shows "of_int \<lfloor>a + b\<rfloor> = a + b"
proof -
  have "a + b = of_int \<lfloor>a\<rfloor> + of_int \<lfloor>b\<rfloor>" using assms by (simp only:)
  also have "\<dots> = of_int (\<lfloor>a\<rfloor> + \<lfloor>b\<rfloor>)" by (simp only: of_int_add)
  finally show ?thesis by (metis floor_of_int)
qed

lemma natural_product:
  assumes "of_int \<lfloor>a\<rfloor> = (a::rat)" "of_int \<lfloor>b\<rfloor> = b"
  shows "of_int \<lfloor>a * b\<rfloor> = a * b"
proof -
  have "a * b = of_int \<lfloor>a\<rfloor> * of_int \<lfloor>b\<rfloor>" using assms by (simp only:)
  also have "\<dots> = of_int (\<lfloor>a\<rfloor> * \<lfloor>b\<rfloor>)" by (simp only: of_int_mult)
  finally show ?thesis by (metis floor_of_int)
qed

text \<open>Sums and products of natural numbers are exact as long as they stay below \<open>2^53\<close>.\<close>

lemma add_exact:
  assumes "isNatural x" "isNatural y" "ratOf x + ratOf y < 2 ^ 53"
  shows "x + y = Fin (ratOf x + ratOf y)" and "isNatural (x + y)"
proof -
  from assms(1) obtain a where x: "x = Fin a" "0 \<le> a" "of_int \<lfloor>a\<rfloor> = a"
    using isNatural_Fin by blast
  from assms(2) obtain b where y: "y = Fin b" "0 \<le> b" "of_int \<lfloor>b\<rfloor> = b"
    using isNatural_Fin by blast
  have r: "round64 (a + b) = Fin (a + b)"
    using x y assms(3) by (intro round64_natural natural_sum) simp_all
  show s: "x + y = Fin (ratOf x + ratOf y)"
    using x y r by (auto simp: plus_number_def num_add_def)
  show "isNatural (x + y)"
    unfolding s using x y by (simp add: natural_sum)
qed

lemma mul_exact:
  assumes "isNatural x" "isNatural y" "ratOf x * ratOf y < 2 ^ 53"
  shows "x * y = Fin (ratOf x * ratOf y)" and "isNatural (x * y)"
proof -
  from assms(1) obtain a where x: "x = Fin a" "0 \<le> a" "of_int \<lfloor>a\<rfloor> = a"
    using isNatural_Fin by blast
  from assms(2) obtain b where y: "y = Fin b" "0 \<le> b" "of_int \<lfloor>b\<rfloor> = b"
    using isNatural_Fin by blast
  have r: "round64 (a * b) = Fin (a * b)"
    using x y assms(3) by (intro round64_natural natural_product) simp_all
  show s: "x * y = Fin (ratOf x * ratOf y)"
    using x y r by (auto simp: times_number_def num_mul_def)
  show "isNatural (x * y)"
    unfolding s using x y by (simp add: natural_product)
qed

lemma round64_numeral:
  "(numeral k :: rat) < 2 ^ 53 \<Longrightarrow> round64 (numeral k) = Fin (numeral k)"
  by (rule round64_natural) simp_all

lemma round64_0 [simp]: "round64 0 = Fin 0"
  by (rule round64_natural) simp_all

lemma round64_1 [simp]: "round64 1 = Fin 1"
  by (rule round64_natural) simp_all

lemma round64_normal:
  assumes "0 \<le> m" "- 1022 \<le> e" "e \<le> 1023" "2 powi e \<le> m" "m < 2 powi (e + 1)"
    and "roundHalfEven (m / 2 powi (e - 52)) = k"
    and "of_int k * 2 powi (e - 52) = v" and "v < 2 ^ 1024"
  shows "round64 m = Fin v"
  using assms roundMagnitude_normal [of e m k v] by (simp add: round64_def)

text \<open>The constant \<open>0.18\<close> of the script as a binary64 value.\<close>

lemma VAT_RATE_value: "VAT_RATE = Fin (6485183463413514 / 2 ^ 55)"
  unfolding VAT_RATE_def
proof (rule round64_normal [where e = "- 3" and k = 6485183463413514])
  show "roundHalfEven (18 / 100 / 2 powi (- 3 - 52)) = 6485183463413514"
    by (rule roundHalfEven_near) simp_all
qed simp_all

lemma vat_of_255000: "Fin 255000 * VAT_RATE = Fin 45900"
proof -
  have "round64 (255000 * (6485183463413514 / 2 ^ 55)) = Fin 45900"
  proof (rule round64_normal [where e = 15 and k = 6308447964364800])
    show "roundHalfEven (255000 * (6485183463413514 / 2 ^ 55) / 2 powi (15 - 52))
            = 6308447964364800"
      by (rule roundHalfEven_near) simp_all
  qed simp_all
  then show ?thesis
    by (simp add: VAT_RATE_value times_number_def num_mul_def)
qed

lemma vat_of_5_4: "Fin (5 / 4) * VAT_RATE = Fin (8106479329266892 / 2 ^ 55)"
proof -
  have "round64 (5 / 4 * (6485183463413514 / 2 ^ 55)) = Fin (8106479329266892 / 2 ^ 55)"
  proof (rule round64_normal [where e = "- 3" and k = 8106479329266892])
    have "roundHalfEven (5 / 4 * (6485183463413514 / 2 ^ 55) / 2 powi (- 3 - 52))
            = (if even (8106479329266892::int) then 8106479329266892 else 8106479329266892 + 1)"
      by (rule roundHalfEven_tie) simp
    then show "roundHalfEven (5 / 4 * (6485183463413514 / 2 ^ 55) / 2 powi (- 3 - 52))
            = 8106479329266892"
      by simp
  qed simp_all
  then show ?thesis
    by (simp add: VAT_RATE_value times_number_def num_mul_def)
qed

lemma round64_5_4: "round64 (5 / 4) = Fin (5 / 4)"
proof (rule round64_normal [where e = 0 and k = "5 * 2 ^ 50"])
  have "(5 / 4 / 2 powi (0 - 52) :: rat) = of_int (5 * 2 ^ 50)" by simp
  then show "roundHalfEven (5 / 4 / 2 powi (0 - 52)) = 5 * 2 ^ 50"
    by (simp only: roundHalfEven_of_int)
qed simp_all

lemma round64_underflow:
  assumes "0 \<le> m" "m < 2 powi (- 1075)"
  shows "round64 m = Fin 0"
proof -
  have "(2::rat) powi (- 1075) \<le> 2 powi (- 1022)"
    by simp
  with assms have sub: "m < 2 powi (- 1022)" by linarith
  have half: "m / 2 powi (- 1074) < 1 / 2"
  proof -
    have "m / 2 powi (- 1074) = m * 2 ^ 1074"
      by simp
    also have "\<dots> < 2 powi (- 1075) * 2 ^ 1074"
      using assms(2) by (rule mult_strict_right_mono) simp_all
    also have "\<dots> = 1 / 2"
      by simp
    finally show ?thesis .
  qed
  have nn: "0 \<le> m / 2 powi (- 1074)"
    using assms(1) by simp
  have "roundHalfEven (m / 2 powi (- 1074)) = 0"
    using half nn by (intro roundHalfEven_near) simp_all
  then have "roundMagnitude m = Fin 0"
    using sub by (intro roundMagnitude_subnormal [where k = 0]) simp_all
  with assms show ?thesis by (simp add: round64_def)
qed

lemma round64_overflow:
  assumes "2 ^ 1024 \<le> m"
  shows "round64 m = PosInf"
proof -
  have "(0::rat) < 2 ^ 1024" by simp
  with assms have "\<not> m < 0" by linarith
  then show ?thesis
    using roundMagnitude_overflow [OF assms] by (simp add: round64_def)
qed

lemmas parse_defs =
  trim_def parseFloat_def parseInt_def trimStart_def isWhiteSpace_def isDigit_def
  digitsValue_def digitValue_def signedNumber_def scale10_def exponentPart_def str_def
  round64_numeral

lemma trim_examples:
  "trim (str '''') = []"
  "trim (str ''x'') = str ''x''"
  "trim (str ''y'') = str ''y''"
  "trim (str ''a'') = str ''a''"
  "trim (str ''b'') = str ''b''"
  "trim [0xA0] = []"
  "trim ([0xFEFF] @ str '' x '' @ [0x3000]) = str ''x''"
  by (simp_all add: parse_defs)

lemma parse_examples:
  "parseFloat (str ''0'') = Fin 0"
  "parseFloat (str ''-5'') = Fin (- 5)"
  "parseFloat (str ''10'') = Fin 10"
  "parseInt (str ''0'') = Fin 0"
  "parseInt (str ''1'') = Fin 1"
  "parseFloat (str ''Infinity'') = PosInf"
  "parseFloat (str ''abc'') = NaN"
  "parseFloat ([0xA0] @ str ''12'') = Fin 12"
  "parseFloat (str ''-0'') = NegZero"
  by (simp_all add: parse_defs)

lemma parse_rounding_examples:
  "parseFloat (str ''1.25'') = Fin (5 / 4)"
  "parseFloat (str ''1e-400'') = Fin 0"
  "parseFloat (str ''1e400'') = PosInf"
  "parseInt (str ''9007199254740993'') = Fin 9007199254740992"
proof -
  show "parseFloat (str ''1.25'') = Fin (5 / 4)"
    by (simp add: parse_defs round64_5_4)
  have "round64 (1 / 10 ^ 400) = Fin 0"
    by (rule round64_underflow) simp_all
  then show "parseFloat (str ''1e-400'') = Fin 0"
    by (simp add: parse_defs)
  have "round64 (10 ^ 400) = PosInf"
    by (rule round64_overflow) simp
  then show "parseFloat (str ''1e400'') = PosInf"
    by (simp add: parse_defs)
  have "round64 9007199254740993 = Fin 9007199254740992"
  proof (rule round64_normal [where e = 53 and k = "2 ^ 52"])
    have "roundHalfEven (9007199254740993 / 2 powi (53 - 52))
            = (if even ((2::int) ^ 52) then 2 ^ 52 else 2 ^ 52 + 1)"
      by (rule roundHalfEven_tie) simp
    then show "roundHalfEven (9007199254740993 / 2 powi (53 - 52)) = 2 ^ 52"
      by simp
  qed simp_all
  then show "parseInt (str ''9007199254740993'') = Fin 9007199254740992"
    by (simp add: parse_defs)
qed

text \<open>
  Familiar facts of the arithmetic: \<open>0.1 + 0.2\<close> is not the Number \<open>0.3\<close> but the
  next one above it, and \<open>1e308 * 10\<close> overflows to \<open>Infinity\<close>.
\<close>

lemma tenth: "round64 (1 / 10) = Fin (7205759403792794 / 2 ^ 56)"
proof (rule round64_normal [where e = "- 4" and k = 7205759403792794])
  show "roundHalfEven (1 / 10 / 2 powi (- 4 - 52)) = 7205759403792794"
    by (rule roundHalfEven_near) simp_all
qed simp_all

lemma fifth: "round64 (2 / 10) = Fin (7205759403792794 / 2 ^ 55)"
proof (rule round64_normal [where e = "- 3" and k = 7205759403792794])
  show "roundHalfEven (2 / 10 / 2 powi (- 3 - 52)) = 7205759403792794"
    by (rule roundHalfEven_near) simp_all
qed simp_all

lemma tenth_plus_fifth:
  "Fin (7205759403792794 / 2 ^ 56) + Fin (7205759403792794 / 2 ^ 55)
     = Fin (5404319552844596 / 2 ^ 54)"
proof -
  have "round64 (7205759403792794 / 2 ^ 56 + 7205759403792794 / 2 ^ 55)
          = Fin (5404319552844596 / 2 ^ 54)"
  proof (rule round64_normal [where e = "- 2" and k = 5404319552844596])
    have "roundHalfEven ((7205759403792794 / 2 ^ 56 + 7205759403792794 / 2 ^ 55)
            / 2 powi (- 2 - 52))
          = (if even (5404319552844595::int) then 5404319552844595 else 5404319552844595 + 1)"
      by (rule roundHalfEven_tie) simp
    then show "roundHalfEven ((7205759403792794 / 2 ^ 56 + 7205759403792794 / 2 ^ 55)
            / 2 powi (- 2 - 52)) = 5404319552844596"
      by simp
  qed simp_all
  then show ?thesis
    by (simp add: plus_number_def num_add_def)
qed

lemma not_three_tenths: "round64 (3 / 10) = Fin (5404319552844595 / 2 ^ 54)"
proof (rule round64_normal [where e = "- 2" and k = 5404319552844595])
  show "roundHalfEven (3 / 10 / 2 powi (- 2 - 52)) = 5404319552844595"
    by (rule roundHalfEven_near) simp_all
qed simp_all

lemma big: "round64 (10 ^ 308) = Fin (5010420900022432 * 2 ^ 971)"
proof (rule round64_normal [where e = 1023 and k = 5010420900022432])
  show "roundHalfEven (10 ^ 308 / 2 powi (1023 - 52)) = 5010420900022432"
    by (rule roundHalfEven_near) simp_all
qed simp_all

lemma big_times_ten: "Fin (5010420900022432 * 2 ^ 971) * Fin 10 = PosInf"
proof -
  have "round64 (5010420900022432 * 2 ^ 971 * 10) = PosInf"
    by (rule round64_overflow) simp
  then show ?thesis
    by (simp add: times_number_def num_mul_def)
qed

lemma num_le_simps [simp]:
  "num_le (Fin a) (Fin b) \<longleftrightarrow> a \<le> b"
  "num_le NegZero (Fin b) \<longleftrightarrow> 0 \<le> b"
  "num_le PosInf (Fin b) \<longleftrightarrow> False"
  "num_le NegInf (Fin b) \<longleftrightarrow> True"
  "num_le NaN x \<longleftrightarrow> False"
  by (simp_all add: num_le_def)

lemma trim_Nil [simp]: "trim [] = []"
  by (simp add: trim_def)

lemma str_empty [simp]:
  "str [] = []"
  "str (c # cs) \<noteq> []"
  by (simp_all add: str_def)

section \<open>Projections of the operations\<close>

lemma products_calculateTotals [simp]: "products (calculateTotals fmt st) = products st"
  by (simp add: calculateTotals_def Let_def)

lemma isSummaryMode_calculateTotals [simp]:
  "isSummaryMode (calculateTotals fmt st) = isSummaryMode st"
  by (simp add: calculateTotals_def Let_def)

lemma rows_calculateTotals [simp]:
  "quotationTableBody (calculateTotals fmt st) = quotationTableBody st"
  by (simp add: calculateTotals_def Let_def)

lemma products_renderProducts [simp]: "products (renderProducts fmt st) = products st"
  by (simp add: renderProducts_def)

lemma isSummaryMode_renderProducts [simp]:
  "isSummaryMode (renderProducts fmt st) = isSummaryMode st"
  by (simp add: renderProducts_def)

lemma rows_renderProducts [simp]:
  "quotationTableBody (renderProducts fmt st) = tableRows fmt (isSummaryMode st) (products st)"
  by (simp add: renderProducts_def)

lemma printed_renderProducts [simp]: "printed (renderProducts fmt st) = printed st"
  by (simp add: renderProducts_def calculateTotals_def Let_def)

lemma headerPrice_renderProducts [simp]: "headerPrice (renderProducts fmt st) = headerPrice st"
  by (simp add: renderProducts_def calculateTotals_def Let_def)

lemma footer_renderProducts [simp]:
  "tableFooterCells (renderProducts fmt st) = tableFooterCells st"
  by (simp add: renderProducts_def calculateTotals_def Let_def)

lemma console_renderProducts [simp]: "console (renderProducts fmt st) = console st"
  by (simp add: renderProducts_def calculateTotals_def Let_def)

lemma renderProducts_idem [simp]:
  "renderProducts fmt (renderProducts fmt st) = renderProducts fmt st"
  by (simp add: renderProducts_def calculateTotals_def Let_def)

lemma products_toggle [simp]: "products (toggleSummaryView fmt st) = products st"
  by (simp add: toggleSummaryView_def Let_def)

lemma isSummaryMode_toggle [simp]:
  "isSummaryMode (toggleSummaryView fmt st) = (\<not> isSummaryMode st)"
  by (simp add: toggleSummaryView_def Let_def)

lemma printed_toggle [simp]: "printed (toggleSummaryView fmt st) = printed st"
  by (simp add: toggleSummaryView_def Let_def)

lemma rows_toggle [simp]:
  "quotationTableBody (toggleSummaryView fmt st) =
     tableRows fmt (\<not> isSummaryMode st) (products st)"
  by (simp add: toggleSummaryView_def Let_def)

section \<open>Printing\<close>

text \<open>
  Claim C6. \<open>printQuotation\<close> called in summary mode first toggles to the detailed view
  and only then calls the print collaborator; called in detailed mode it makes no
  transition and only prints. In both cases the state is detailed afterwards and the
  print collaborator was called with the state detailed.
\<close>

theorem printQuotation_detailed:
  "isSummaryMode (printQuotation fmt st) = False \<and>
   printed (printQuotation fmt st) = printed st @ [False] \<and>
   (isSummaryMode st \<longrightarrow> printQuotation fmt st = window_print (toggleSummaryView fmt st)) \<and>
   (\<not> isSummaryMode st \<longrightarrow> printQuotation fmt st = st\<lparr>printed := printed st @ [False]\<rparr>)"
  by (simp add: printQuotation_def window_print_def)

theorem printQuotation_detailed_witness:
  "isSummaryMode summaryPage \<and>
   printQuotation fixed2 summaryPage = window_print (toggleSummaryView fixed2 summaryPage) \<and>
   isSummaryMode (printQuotation fixed2 summaryPage) = False \<and>
   \<not> isSummaryMode blankPage \<and>
   printQuotation fixed2 blankPage = blankPage\<lparr>printed := printed blankPage @ [False]\<rparr>"
proof -
  have s: "isSummaryMode summaryPage"
    by (simp add: summaryPage_def blankPage_def)
  have d: "\<not> isSummaryMode blankPage"
    by (simp add: blankPage_def)
  from printQuotation_detailed [of fixed2 summaryPage] s
  have a: "printQuotation fixed2 summaryPage = window_print (toggleSummaryView fixed2 summaryPage)"
    and b: "isSummaryMode (printQuotation fixed2 summaryPage) = False"
    by blast+
  from printQuotation_detailed [of fixed2 blankPage] d
  have c: "printQuotation fixed2 blankPage = blankPage\<lparr>printed := printed blankPage @ [False]\<rparr>"
    by blast
  from s a b d c show ?thesis by blast
qed

section \<open>Adding an item\<close>

lemma addProduct_reject:
  "trim (productName st) = [] \<or>
   isNaN (parseFloat (unitPrice st)) \<or> num_le (parseFloat (unitPrice st)) 0 \<or>
   isNaN (parseInt (quantity st)) \<or> num_le (parseInt (quantity st)) 0
   \<Longrightarrow> addProduct fmt now st = st\<lparr>console := console st @ [validationError]\<rparr>"
  by (simp add: addProduct_def Let_def)

lemma addProduct_accept:
  "\<not> (trim (productName st) = [] \<or>
   isNaN (parseFloat (unitPrice st)) \<or> num_le (parseFloat (unitPrice st)) 0 \<or>
   isNaN (parseInt (quantity st)) \<or> num_le (parseInt (quantity st)) 0)
   \<Longrightarrow> addProduct fmt now st =
       renderProducts fmt
         (st\<lparr>products := products st @
               [\<lparr>product_id = now, name = trim (productName st),
                 price = parseFloat (unitPrice st), qty = parseInt (quantity st)\<rparr>],
             productName := [], unitPrice := [], quantity := (str ''1'')\<rparr>)"
  by (simp add: addProduct_def Let_def)

lemma fillForm_simps [simp]:
  "productName (fillForm n p q st) = n"
  "unitPrice (fillForm n p q st) = p"
  "quantity (fillForm n p q st) = q"
  "products (fillForm n p q st) = products st"
  "console (fillForm n p q st) = console st"
  "isSummaryMode (fillForm n p q st) = isSummaryMode st"
  by (simp_all add: fillForm_def)

text \<open>
  Claim C2. In every state, \<open>addProduct\<close> with a name that is blank after trimming, or
  a unit price that does not parse to a number or is not above zero, or a quantity that
  does not parse to a number or is not above zero, writes the validation error to the
  console and changes nothing else: no item is created, the products and every other
  part of the state stay as they were. In particular this is so, in every state, for the
  inputs ("", 10, 1), ("x", 0, 1), ("x", 10, 0) and ("x", -5, 1).
\<close>

theorem addProduct_rejects:
  "(trim (productName st) = [] \<or>
    isNaN (parseFloat (unitPrice st)) \<or> num_le (parseFloat (unitPrice st)) 0 \<or>
    isNaN (parseInt (quantity st)) \<or> num_le (parseInt (quantity st)) 0
    \<longrightarrow> addProduct fmt now st = st\<lparr>console := console st @ [validationError]\<rparr>) \<and>
   (\<forall>(n, p, q) \<in> set [((str ''''), (str ''10''), (str ''1'')), ((str ''x''), (str ''0''), (str ''1'')),
                         ((str ''x''), (str ''10''), (str ''0'')), ((str ''x''), (str ''-5''), (str ''1''))].
      step fmt st (Add n p q now)
        = (fillForm n p q st)\<lparr>console := console st @ [validationError]\<rparr> \<and>
      products (step fmt st (Add n p q now)) = products st)"
proof -
  have ex: "step fmt st (Add n p q now)
              = (fillForm n p q st)\<lparr>console := console st @ [validationError]\<rparr> \<and>
            products (step fmt st (Add n p q now)) = products st"
    if "trim n = [] \<or> isNaN (parseFloat p) \<or> num_le (parseFloat p) 0 \<or>
        isNaN (parseInt q) \<or> num_le (parseInt q) 0" for n p q
    using that addProduct_reject [of "fillForm n p q st" fmt now] by auto
  have e1: "step fmt st (Add (str '''') (str ''10'') (str ''1'') now)
              = (fillForm (str '''') (str ''10'') (str ''1'') st)\<lparr>console := console st @ [validationError]\<rparr> \<and>
            products (step fmt st (Add (str '''') (str ''10'') (str ''1'') now)) = products st"
    by (rule ex) (simp add: parse_examples trim_examples)
  have e2: "step fmt st (Add (str ''x'') (str ''0'') (str ''1'') now)
              = (fillForm (str ''x'') (str ''0'') (str ''1'') st)\<lparr>console := console st @ [validationError]\<rparr> \<and>
            products (step fmt st (Add (str ''x'') (str ''0'') (str ''1'') now)) = products st"
    by (rule ex) (simp add: parse_examples trim_examples zero_number_def)
  have e3: "step fmt st (Add (str ''x'') (str ''10'') (str ''0'') now)
              = (fillForm (str ''x'') (str ''10'') (str ''0'') st)\<lparr>console := console st @ [validationError]\<rparr> \<and>
            products (step fmt st (Add (str ''x'') (str ''10'') (str ''0'') now)) = products st"
    by (rule ex) (simp add: parse_examples trim_examples zero_number_def)
  have e4: "step fmt st (Add (str ''x'') (str ''-5'') (str ''1'') now)
              = (fillForm (str ''x'') (str ''-5'') (str ''1'') st)\<lparr>console := console st @ [validationError]\<rparr> \<and>
            products (step fmt st (Add (str ''x'') (str ''-5'') (str ''1'') now)) = products st"
    by (rule ex) (simp add: parse_examples trim_examples zero_number_def)
  have general:
    "trim (productName st) = [] \<or>
     isNaN (parseFloat (unitPrice st)) \<or> num_le (parseFloat (unitPrice st)) 0 \<or>
     isNaN (parseInt (quantity st)) \<or> num_le (parseInt (quantity st)) 0
     \<longrightarrow> addProduct fmt now st = st\<lparr>console := console st @ [validationError]\<rparr>"
    using addProduct_reject [of st fmt now] by blast
  from e1 e2 e3 e4 have
    "\<forall>(n, p, q) \<in> set [((str ''''), (str ''10''), (str ''1'')), ((str ''x''), (str ''0''), (str ''1'')),
                         ((str ''x''), (str ''10''), (str ''0'')), ((str ''x''), (str ''-5''), (str ''1''))].
      step fmt st (Add n p q now)
        = (fillForm n p q st)\<lparr>console := console st @ [validationError]\<rparr> \<and>
      products (step fmt st (Add n p q now)) = products st"
    by simp
  with general show ?thesis by blast
qed

text \<open>
  Rejected on the blank page: a price that is no number; a name that is a single
  no-break space, which \<open>trim\<close> removes; a price \<open>1e-400\<close>, which rounds to zero;
  and a negative price.
\<close>

theorem addProduct_rejects_witness:
  "isNaN (parseFloat (unitPrice (fillForm (str ''x'') (str ''abc'') (str ''1'') blankPage))) \<and>
   addProduct fixed2 7 (fillForm (str ''x'') (str ''abc'') (str ''1'') blankPage)
     = (fillForm (str ''x'') (str ''abc'') (str ''1'') blankPage)\<lparr>console := [validationError]\<rparr> \<and>
   trim (productName (fillForm [0xA0] (str ''10'') (str ''1'') blankPage)) = [] \<and>
   addProduct fixed2 7 (fillForm [0xA0] (str ''10'') (str ''1'') blankPage)
     = (fillForm [0xA0] (str ''10'') (str ''1'') blankPage)\<lparr>console := [validationError]\<rparr> \<and>
   num_le (parseFloat (unitPrice (fillForm (str ''x'') (str ''1e-400'') (str ''1'') blankPage))) 0 \<and>
   addProduct fixed2 7 (fillForm (str ''x'') (str ''1e-400'') (str ''1'') blankPage)
     = (fillForm (str ''x'') (str ''1e-400'') (str ''1'') blankPage)\<lparr>console := [validationError]\<rparr> \<and>
   products (step fixed2 blankPage (Add (str ''x'') (str ''-5'') (str ''1'') 7)) = []"
proof -
  let ?nan = "fillForm (str ''x'') (str ''abc'') (str ''1'') blankPage"
  let ?nbsp = "fillForm [0xA0] (str ''10'') (str ''1'') blankPage"
  let ?tiny = "fillForm (str ''x'') (str ''1e-400'') (str ''1'') blankPage"
  have h1: "isNaN (parseFloat (unitPrice ?nan))"
    by (simp add: parse_examples)
  have h2: "trim (productName ?nbsp) = []"
    by (simp add: trim_examples)
  have h3: "num_le (parseFloat (unitPrice ?tiny)) 0"
    by (simp add: parse_rounding_examples zero_number_def)
  have c: "console ?nan = []" "console ?nbsp = []" "console ?tiny = []" "products blankPage = []"
    by (simp_all add: blankPage_def)
  from addProduct_rejects [of ?nan fixed2 7] h1
  have a1: "addProduct fixed2 7 ?nan = ?nan\<lparr>console := console ?nan @ [validationError]\<rparr>"
    by blast
  from addProduct_rejects [of ?nbsp fixed2 7] h2
  have a2: "addProduct fixed2 7 ?nbsp = ?nbsp\<lparr>console := console ?nbsp @ [validationError]\<rparr>"
    by blast
  from addProduct_rejects [of ?tiny fixed2 7] h3
  have a3: "addProduct fixed2 7 ?tiny = ?tiny\<lparr>console := console ?tiny @ [validationError]\<rparr>"
    by blast
  from addProduct_rejects [of blankPage fixed2 7]
  have b: "products (step fixed2 blankPage (Add (str ''x'') (str ''-5'') (str ''1'') 7))
             = products blankPage"
    by simp
  from h1 h2 h3 a1 a2 a3 b show ?thesis
    by (simp only: c append_Nil simp_thms)
qed

lemma products_add_accept:
  assumes "trim n \<noteq> []" "\<not> isNaN (parseFloat p)" "\<not> num_le (parseFloat p) 0"
    "\<not> isNaN (parseInt q)" "\<not> num_le (parseInt q) 0"
  shows "products (step fmt st (Add n p q now)) =
           products st @ [\<lparr>product_id = now, name = trim n, price = parseFloat p, qty = parseInt q\<rparr>]"
  using assms addProduct_accept [of "fillForm n p q st" fmt now] by simp

lemma products_add_cases:
  "products (addProduct fmt now st) = products st \<or>
   products (addProduct fmt now st) =
     products st @ [\<lparr>product_id = now, name = trim (productName st),
                     price = parseFloat (unitPrice st), qty = parseInt (quantity st)\<rparr>]"
  by (simp add: addProduct_def Let_def)

lemma positive_number:
  "\<not> isNaN x \<Longrightarrow> \<not> num_le x 0 \<Longrightarrow> (\<exists>r>0. x = Fin r) \<or> x = PosInf"
  by (cases x) (auto simp: zero_number_def num_le_def)

text \<open>
  Claim C5, as the code has it. \<open>addProduct\<close> creates an item only if the unit price
  parses to a Number that is not \<open>NaN\<close> and is above zero, that is to a positive finite
  number or to \<open>Infinity\<close>. A price that is \<open>NaN\<close> or not above zero is rejected:
  the validation error is written to the console and nothing else changes, so no item
  is created. With a valid name and quantity every price that parses to a positive
  finite number or to \<open>Infinity\<close> is accepted: the item is appended with that price
  and nothing is written to the console. No test of finiteness is made: the price text
  \<open>Infinity\<close> is accepted and the item is stored with an infinite price.
\<close>

theorem addProduct_price_accepted:
  "(products (addProduct fmt now st) \<noteq> products st \<longrightarrow>
      (\<exists>r>0. parseFloat (unitPrice st) = Fin r) \<or> parseFloat (unitPrice st) = PosInf) \<and>
   (isNaN (parseFloat (unitPrice st)) \<or> num_le (parseFloat (unitPrice st)) 0 \<longrightarrow>
      addProduct fmt now st = st\<lparr>console := console st @ [validationError]\<rparr>) \<and>
   (trim (productName st) \<noteq> [] \<and>
    \<not> isNaN (parseInt (quantity st)) \<and> \<not> num_le (parseInt (quantity st)) 0 \<and>
    ((\<exists>r>0. parseFloat (unitPrice st) = Fin r) \<or> parseFloat (unitPrice st) = PosInf) \<longrightarrow>
      products (addProduct fmt now st) =
        products st @ [\<lparr>product_id = now, name = trim (productName st),
                        price = parseFloat (unitPrice st), qty = parseInt (quantity st)\<rparr>] \<and>
      console (addProduct fmt now st) = console st) \<and>
   (trim n \<noteq> [] \<and> \<not> isNaN (parseInt q) \<and> \<not> num_le (parseInt q) 0 \<longrightarrow>
      products (step fmt st (Add n (str ''Infinity'') q now)) =
        products st @ [\<lparr>product_id = now, name = trim n, price = PosInf, qty = parseInt q\<rparr>])"
proof -
  have a: "(\<exists>r>0. parseFloat (unitPrice st) = Fin r) \<or> parseFloat (unitPrice st) = PosInf"
    if "products (addProduct fmt now st) \<noteq> products st"
  proof -
    from that have "\<not> isNaN (parseFloat (unitPrice st))" "\<not> num_le (parseFloat (unitPrice st)) 0"
      using addProduct_reject [of st fmt now] by auto
    then show ?thesis by (rule positive_number)
  qed
  have b: "addProduct fmt now st = st\<lparr>console := console st @ [validationError]\<rparr>"
    if "isNaN (parseFloat (unitPrice st)) \<or> num_le (parseFloat (unitPrice st)) 0"
    using that addProduct_reject [of st fmt now] by blast
  have c: "products (addProduct fmt now st) =
        products st @ [\<lparr>product_id = now, name = trim (productName st),
                        price = parseFloat (unitPrice st), qty = parseInt (quantity st)\<rparr>] \<and>
      console (addProduct fmt now st) = console st"
    if "trim (productName st) \<noteq> [] \<and>
        \<not> isNaN (parseInt (quantity st)) \<and> \<not> num_le (parseInt (quantity st)) 0 \<and>
        ((\<exists>r>0. parseFloat (unitPrice st) = Fin r) \<or> parseFloat (unitPrice st) = PosInf)"
  proof -
    from that have "\<not> isNaN (parseFloat (unitPrice st))" "\<not> num_le (parseFloat (unitPrice st)) 0"
      by (auto simp: zero_number_def num_le_def)
    with that have "addProduct fmt now st =
       renderProducts fmt
         (st\<lparr>products := products st @
               [\<lparr>product_id = now, name = trim (productName st),
                 price = parseFloat (unitPrice st), qty = parseInt (quantity st)\<rparr>],
             productName := [], unitPrice := [], quantity := (str ''1'')\<rparr>)"
      by (intro addProduct_accept) blast
    then show ?thesis by simp
  qed
  have d: "products (step fmt st (Add n (str ''Infinity'') q now)) =
        products st @ [\<lparr>product_id = now, name = trim n, price = PosInf, qty = parseInt q\<rparr>]"
    if "trim n \<noteq> [] \<and> \<not> isNaN (parseInt q) \<and> \<not> num_le (parseInt q) 0"
    using that products_add_accept [of n "str ''Infinity''" q fmt st now]
    by (simp add: parse_examples zero_number_def)
  from a b c d show ?thesis by blast
qed

text \<open>
  The claim as stated fails: the price text \<open>Infinity\<close> parses to a Number that is
  not finite, and the item is created.
\<close>

theorem addProduct_accepts_Infinity:
  "products (step fixed2 blankPage (Add (str ''x'') (str ''Infinity'') (str ''1'') 7)) =
     [\<lparr>product_id = 7, name = (str ''x''), price = PosInf, qty = Fin 1\<rparr>] \<and>
   parseFloat (str ''Infinity'') = PosInf \<and> \<not> isFinite PosInf"
  using products_add_accept [of "str ''x''" "str ''Infinity''" "str ''1''" fixed2 blankPage 7]
  by (simp add: parse_examples trim_examples zero_number_def num_le_def blankPage_def)

text \<open>
  On the blank page: the price 10 is accepted; the price \<open>abc\<close> is rejected with the
  validation error; the price \<open>1e400\<close>, which overflows to \<open>Infinity\<close>, and the price
  text \<open>Infinity\<close> are accepted.
\<close>

theorem addProduct_price_accepted_witness:
  "products (addProduct fixed2 7 (fillForm (str ''x'') (str ''10'') (str ''1'') blankPage))
     \<noteq> products (fillForm (str ''x'') (str ''10'') (str ''1'') blankPage) \<and>
   (\<exists>r>0. parseFloat (unitPrice (fillForm (str ''x'') (str ''10'') (str ''1'') blankPage)) = Fin r) \<and>
   isNaN (parseFloat (unitPrice (fillForm (str ''x'') (str ''abc'') (str ''1'') blankPage))) \<and>
   addProduct fixed2 7 (fillForm (str ''x'') (str ''abc'') (str ''1'') blankPage)
     = (fillForm (str ''x'') (str ''abc'') (str ''1'') blankPage)\<lparr>console := [validationError]\<rparr> \<and>
   parseFloat (unitPrice (fillForm (str ''x'') (str ''1e400'') (str ''1'') blankPage)) = PosInf \<and>
   products (addProduct fixed2 7 (fillForm (str ''x'') (str ''1e400'') (str ''1'') blankPage))
     = [\<lparr>product_id = 7, name = str ''x'', price = PosInf, qty = Fin 1\<rparr>] \<and>
   console (addProduct fixed2 7 (fillForm (str ''x'') (str ''1e400'') (str ''1'') blankPage)) = [] \<and>
   products (step fixed2 blankPage (Add (str ''x'') (str ''Infinity'') (str ''1'') 7)) =
     [\<lparr>product_id = 7, name = (str ''x''), price = PosInf, qty = Fin 1\<rparr>]"
proof -
  let ?ok = "fillForm (str ''x'') (str ''10'') (str ''1'') blankPage"
  let ?bad = "fillForm (str ''x'') (str ''abc'') (str ''1'') blankPage"
  let ?big = "fillForm (str ''x'') (str ''1e400'') (str ''1'') blankPage"
  have blank: "products blankPage = []" "console blankPage = []"
    by (simp_all add: blankPage_def)
  have ok: "products (addProduct fixed2 7 ?ok) \<noteq> products ?ok"
    using addProduct_accept [of ?ok fixed2 7]
    by (simp add: parse_examples trim_examples zero_number_def)
  have p10: "parseFloat (unitPrice ?ok) \<noteq> PosInf"
    by (simp add: parse_examples)
  from addProduct_price_accepted [of fixed2 7 ?ok] ok p10
  have c1: "\<exists>r>0. parseFloat (unitPrice ?ok) = Fin r" by blast
  have bad: "isNaN (parseFloat (unitPrice ?bad))"
    by (simp add: parse_examples)
  from addProduct_price_accepted [of fixed2 7 ?bad] bad
  have "addProduct fixed2 7 ?bad = ?bad\<lparr>console := console ?bad @ [validationError]\<rparr>"
    by blast
  then have c2: "addProduct fixed2 7 ?bad = ?bad\<lparr>console := [validationError]\<rparr>"
    by (simp add: blank)
  have big: "parseFloat (unitPrice ?big) = PosInf"
    by (simp add: parse_rounding_examples)
  have hyp: "trim (productName ?big) \<noteq> [] \<and>
      \<not> isNaN (parseInt (quantity ?big)) \<and> \<not> num_le (parseInt (quantity ?big)) 0 \<and>
      ((\<exists>r>0. parseFloat (unitPrice ?big) = Fin r) \<or> parseFloat (unitPrice ?big) = PosInf)"
    by (simp add: parse_examples parse_rounding_examples trim_examples zero_number_def)
  from addProduct_price_accepted [of fixed2 7 ?big] hyp
  have "products (addProduct fixed2 7 ?big) =
        products ?big @ [\<lparr>product_id = 7, name = trim (productName ?big),
                        price = parseFloat (unitPrice ?big), qty = parseInt (quantity ?big)\<rparr>]"
    and "console (addProduct fixed2 7 ?big) = console ?big"
    by blast+
  then have c3: "products (addProduct fixed2 7 ?big)
        = [\<lparr>product_id = 7, name = str ''x'', price = PosInf, qty = Fin 1\<rparr>]"
    and c4: "console (addProduct fixed2 7 ?big) = []"
    by (simp_all add: blank parse_examples parse_rounding_examples trim_examples)
  have valid: "trim (str ''x'') \<noteq> [] \<and> \<not> isNaN (parseInt (str ''1'')) \<and>
      \<not> num_le (parseInt (str ''1'')) 0"
    by (simp add: parse_examples trim_examples zero_number_def)
  from addProduct_price_accepted [of fixed2 7 blankPage "str ''x''" "str ''1''"] valid
  have "products (step fixed2 blankPage (Add (str ''x'') (str ''Infinity'') (str ''1'') 7)) =
        products blankPage @ [\<lparr>product_id = 7, name = trim (str ''x''), price = PosInf,
                               qty = parseInt (str ''1'')\<rparr>]"
    by blast
  then have c5: "products (step fixed2 blankPage (Add (str ''x'') (str ''Infinity'') (str ''1'') 7))
        = [\<lparr>product_id = 7, name = (str ''x''), price = PosInf, qty = Fin 1\<rparr>]"
    by (simp add: blank parse_examples trim_examples)
  from ok c1 bad c2 big c3 c4 c5 show ?thesis by blast
qed

section \<open>Removing an item\<close>

lemma products_update_same [simp]: "st\<lparr>products := products st\<rparr> = st"
  by simp

lemma products_deleteProduct [simp]:
  "products (snd (deleteProduct fmt i st)) = filter (\<lambda>p. product_id p \<noteq> i) (products st)"
  by (simp add: deleteProduct_def)

lemma fst_deleteProduct [simp]: "fst (deleteProduct fmt i st) = Undefined"
  by (simp add: deleteProduct_def)

lemma isSummaryMode_deleteProduct [simp]:
  "isSummaryMode (snd (deleteProduct fmt i st)) = isSummaryMode st"
  by (simp add: deleteProduct_def)

lemma rows_deleteProduct [simp]:
  "quotationTableBody (snd (deleteProduct fmt i st)) =
     tableRows fmt (isSummaryMode st) (filter (\<lambda>p. product_id p \<noteq> i) (products st))"
  by (simp add: deleteProduct_def)

lemma deleteProduct_absent:
  assumes "i \<notin> product_id ` set (products st)"
  shows "deleteProduct fmt i st = (Undefined, renderProducts fmt st)"
proof -
  from assms have "filter (\<lambda>p. product_id p \<noteq> i) (products st) = products st"
    by (auto simp: filter_id_conv)
  then show ?thesis by (simp add: deleteProduct_def)
qed

text \<open>
  Claim C4, as the code has it. \<open>deleteProduct\<close> returns no value: a call evaluates
  to \<open>undefined\<close> whether or not an item was removed. It removes every item whose
  identifier equals the argument and keeps the others in their order; the view mode is
  untouched. When no item has that identifier the products are unchanged, and a second
  call with the same identifier gives the same result and the same state as the first.
\<close>

theorem deleteProduct_filters:
  "fst (deleteProduct fmt i st) = Undefined \<and>
   products (snd (deleteProduct fmt i st)) = filter (\<lambda>p. product_id p \<noteq> i) (products st) \<and>
   isSummaryMode (snd (deleteProduct fmt i st)) = isSummaryMode st \<and>
   (i \<notin> product_id ` set (products st) \<longrightarrow>
      products (snd (deleteProduct fmt i st)) = products st \<and>
      deleteProduct fmt i (snd (deleteProduct fmt i st)) = deleteProduct fmt i st)"
proof -
  have absent: "products (snd (deleteProduct fmt i st)) = products st \<and>
      deleteProduct fmt i (snd (deleteProduct fmt i st)) = deleteProduct fmt i st"
    if a: "i \<notin> product_id ` set (products st)"
  proof -
    have 1: "deleteProduct fmt i st = (Undefined, renderProducts fmt st)"
      using a by (rule deleteProduct_absent)
    have "i \<notin> product_id ` set (products (renderProducts fmt st))"
      using a by simp
    then have "deleteProduct fmt i (renderProducts fmt st)
                 = (Undefined, renderProducts fmt (renderProducts fmt st))"
      by (rule deleteProduct_absent)
    with 1 show ?thesis by simp
  qed
  from absent show ?thesis by simp
qed

text \<open>
  The claim as stated fails: item 2 is present and is removed, and the call does not
  return \<open>true\<close>.
\<close>

theorem deleteProduct_returns_undefined:
  "2 \<in> product_id ` set (products scenarioPage) \<and>
   map product_id (products (snd (deleteProduct fixed2 2 scenarioPage))) = [1, 3] \<and>
   fst (deleteProduct fixed2 2 scenarioPage) \<noteq> Boolean True"
  by (simp add: scenarioPage_def scenarioItems_def)

theorem deleteProduct_filters_witness:
  "7 \<notin> product_id ` set (products scenarioPage) \<and>
   fst (deleteProduct fixed2 7 scenarioPage) = Undefined \<and>
   products (snd (deleteProduct fixed2 7 scenarioPage)) = scenarioItems \<and>
   deleteProduct fixed2 7 (snd (deleteProduct fixed2 7 scenarioPage))
     = deleteProduct fixed2 7 scenarioPage"
proof -
  have a: "7 \<notin> product_id ` set (products scenarioPage)"
    by (simp add: scenarioPage_def scenarioItems_def)
  have p: "products scenarioPage = scenarioItems"
    by (simp add: scenarioPage_def)
  from deleteProduct_filters [of fixed2 7 scenarioPage] a
  have "fst (deleteProduct fixed2 7 scenarioPage) = Undefined"
    "products (snd (deleteProduct fixed2 7 scenarioPage)) = products scenarioPage"
    "deleteProduct fixed2 7 (snd (deleteProduct fixed2 7 scenarioPage))
       = deleteProduct fixed2 7 scenarioPage"
    by blast+
  with a p show ?thesis by simp
qed

section \<open>Sessions and identifiers\<close>

lemma products_loadScript [simp]: "products (loadScript fmt clock page) = seedProducts clock"
  by (simp add: loadScript_def)

lemma products_saveClientInfo [simp]: "products (saveClientInfo st) = products st"
  by (simp add: saveClientInfo_def Let_def)

lemma isSummaryMode_saveClientInfo [simp]: "isSummaryMode (saveClientInfo st) = isSummaryMode st"
  by (simp add: saveClientInfo_def Let_def)

lemma rows_saveClientInfo [simp]: "quotationTableBody (saveClientInfo st) = quotationTableBody st"
  by (simp add: saveClientInfo_def Let_def)

lemma products_initial [simp]: "products (initial fmt clock page) = seedProducts clock"
  by (simp add: initial_def domContentLoaded_def)

lemma isSummaryMode_initial [simp]: "isSummaryMode (initial fmt clock page) = False"
  by (simp add: initial_def domContentLoaded_def loadScript_def)

lemma seed_ids:
  "map product_id (seedProducts clock) =
     [clock 1 + 1, clock 2 + 2, clock 3 + 3, clock 4 + 4, clock 5 + 5, clock 6 + 6,
      clock 7 + 7, clock 8 + 8, clock 9 + 9, clock 10 + 10, clock 11 + 11, clock 12 + 12]"
  by (simp add: seedProducts_def)

lemma upt_1_13: "[1..<13] = [1, 2, 3, 4, 5, 6, 7, 8, 9, 10, 11, 12::nat]"
  by code_simp

lemma seed_ids_map:
  "map product_id (seedProducts clock) = map (\<lambda>i. clock i + int i) [1..<13]"
  unfolding seed_ids upt_1_13 by simp

lemma run_Nil [simp]: "run fmt [] st = st"
  by (simp add: run_def)

lemma run_Cons [simp]: "run fmt (a # acts) st = run fmt acts (step fmt st a)"
  by (simp add: run_def)

lemma run_snoc [simp]: "run fmt (acts @ [a]) st = step fmt (run fmt acts st) a"
  by (simp add: run_def)

text \<open>
  Claim C3 asks that every successful \<open>addProduct\<close> gives the new item an identifier
  that no item of the session has had, so that identifiers are pairwise distinct in every
  reachable state. The identifier is the reading of the clock and nothing else. After a
  load with the clock at 1000, two valid additions whose clock readings are both 5000
  are appended at the end, as claimed, and carry the same identifier: the identifiers
  of the reachable state are not distinct.
\<close>

theorem addProduct_same_millisecond:
  "map product_id
     (products (run fixed2 [Add (str ''a'') (str ''10'') (str ''1'') 5000, Add (str ''b'') (str ''10'') (str ''1'') 5000]
                 (initial fixed2 (\<lambda>k. 1000) blankPage)))
     = [1001, 1002, 1003, 1004, 1005, 1006, 1007, 1008, 1009, 1010, 1011, 1012, 5000, 5000] \<and>
   \<not> distinct (map product_id
     (products (run fixed2 [Add (str ''a'') (str ''10'') (str ''1'') 5000, Add (str ''b'') (str ''10'') (str ''1'') 5000]
                 (initial fixed2 (\<lambda>k. 1000) blankPage))))"
proof -
  have ok: "trim (str ''a'') \<noteq> []" "trim (str ''b'') \<noteq> []" "\<not> isNaN (parseFloat (str ''10''))"
    "\<not> num_le (parseFloat (str ''10'')) 0" "\<not> isNaN (parseInt (str ''1''))" "\<not> num_le (parseInt (str ''1'')) 0"
    by (simp_all add: parse_examples trim_examples zero_number_def)
  have "map product_id
     (products (run fixed2 [Add (str ''a'') (str ''10'') (str ''1'') 5000, Add (str ''b'') (str ''10'') (str ''1'') 5000]
                 (initial fixed2 (\<lambda>k. 1000) blankPage)))
     = [1001, 1002, 1003, 1004, 1005, 1006, 1007, 1008, 1009, 1010, 1011, 1012, 5000, 5000]"
    by (simp add: products_add_accept ok seed_ids del: step.simps)
  then show ?thesis by simp
qed

text \<open>
  What does hold: an accepted item is appended at the end (\<open>products_add_accept\<close>);
  identifiers stay distinct as long as each reading of the clock differs from every
  identifier in the list, and a reading that repeats one breaks distinctness; the seeded
  identifiers are distinct when the clock does not run backwards during the load.
\<close>

lemma addProduct_fresh_id:
  assumes "distinct (map product_id (products st))"
    and "now \<notin> product_id ` set (products st)"
  shows "distinct (map product_id (products (addProduct fmt now st)))"
  using assms products_add_cases [of fmt now st] by auto

lemma addProduct_repeated_id:
  assumes "products (addProduct fmt now st) \<noteq> products st"
    and "now \<in> product_id ` set (products st)"
  shows "\<not> distinct (map product_id (products (addProduct fmt now st)))"
  using assms products_add_cases [of fmt now st] by auto

lemma seed_ids_distinct:
  assumes "\<forall>i j. i \<le> j \<longrightarrow> clock i \<le> clock j"
  shows "distinct (map product_id (seedProducts clock))"
proof -
  have "inj_on (\<lambda>i. clock i + int i) (set [1..<13])"
  proof (rule inj_onI)
    fix i j assume e: "clock i + int i = clock j + int j"
    show "i = j"
    proof (rule ccontr)
      assume "i \<noteq> j"
      then consider "i < j" | "j < i" by linarith
      then show False
      proof cases
        case 1
        with assms have "clock i \<le> clock j" by simp
        with 1 e show False by linarith
      next
        case 2
        with assms have "clock j \<le> clock i" by simp
        with 2 e show False by linarith
      qed
    qed
  qed
  then show ?thesis
    unfolding seed_ids_map by (simp add: distinct_map)
qed

section \<open>Rendering\<close>

lemma length_tableRows [simp]: "length (tableRows fmt summary ps) = length ps"
  by (simp add: tableRows_def)

lemma nth_tableRows:
  "i < length ps \<Longrightarrow> tableRows fmt summary ps ! i = renderRow fmt summary i (ps ! i)"
  by (simp add: tableRows_def nth_enumerate_eq)

lemma indexCell_tableRows:
  "map indexCell (tableRows fmt summary ps) = [1..<Suc (length ps)]"
proof -
  have "map indexCell (tableRows fmt summary ps) = map Suc [0..<length ps]"
    by (rule nth_equalityI; simp add: nth_tableRows renderRow_def Let_def)
  also have "\<dots> = [1..<Suc (length ps)]"
    by (simp add: map_Suc_upt)
  finally show ?thesis .
qed

lemma tableRows_fields:
  "map nameCell (tableRows fmt summary ps) = map name ps"
  "map qtyCell (tableRows fmt summary ps) = map qty ps"
  "map removeArg (tableRows fmt summary ps) = map product_id ps"
  "map totalCell (tableRows fmt summary ps) = map (\<lambda>p. fmt (price p * qty p)) ps"
  "map priceClass (tableRows fmt summary ps) =
     map (\<lambda>p. if summary then (str ''hidden'') else (str ''hidden lg:table-cell'')) ps"
  by (rule nth_equalityI; simp add: nth_tableRows renderRow_def Let_def)+

lemma priceClass_tableRows:
  "r \<in> set (tableRows fmt summary ps) \<Longrightarrow>
   priceClass r = (if summary then (str ''hidden'') else (str ''hidden lg:table-cell''))"
  by (auto simp: tableRows_def renderRow_def Let_def)

lemma pageBreak_renderRow: "pageBreak (renderRow fmt summary i p) \<longleftrightarrow> i = 9"
  by (simp add: pageBreak_def renderRow_def Let_def classList_add_def str_def)

lemma rendered_renderProducts [simp]: "rendered fmt (renderProducts fmt st)"
  by (simp add: rendered_def)

lemma rendered_rows:
  "rendered fmt st \<Longrightarrow>
   quotationTableBody st = tableRows fmt (isSummaryMode st) (products st)"
  unfolding rendered_def using rows_renderProducts [of fmt st] by simp

lemma renderProducts_frame:
  "renderProducts fmt (st\<lparr>console := c\<rparr>) = (renderProducts fmt st)\<lparr>console := c\<rparr>"
  "renderProducts fmt (st\<lparr>printed := pr\<rparr>) = (renderProducts fmt st)\<lparr>printed := pr\<rparr>"
  "renderProducts fmt (st\<lparr>productName := n, unitPrice := u, quantity := q\<rparr>)
     = (renderProducts fmt st)\<lparr>productName := n, unitPrice := u, quantity := q\<rparr>"
  "renderProducts fmt (st\<lparr>displayClientName := a, displayClientAddress := b,
                            displayClientContact := d\<rparr>)
     = (renderProducts fmt st)\<lparr>displayClientName := a, displayClientAddress := b,
                                displayClientContact := d\<rparr>"
  by (simp_all add: renderProducts_def calculateTotals_def Let_def)

lemma rendered_saveClientInfo: "rendered fmt st \<Longrightarrow> rendered fmt (saveClientInfo st)"
  by (simp add: rendered_def saveClientInfo_def Let_def renderProducts_frame)

lemma rendered_initial: "rendered fmt (initial fmt clock page)"
  by (simp add: initial_def domContentLoaded_def rendered_saveClientInfo)

lemma rendered_fillForm: "rendered fmt st \<Longrightarrow> rendered fmt (fillForm n p q st)"
  by (simp add: rendered_def fillForm_def renderProducts_frame)

lemma rendered_addProduct:
  "rendered fmt st \<Longrightarrow> rendered fmt (addProduct fmt now st)"
  by (simp add: addProduct_def Let_def) (simp add: rendered_def renderProducts_frame)

lemma rendered_deleteProduct: "rendered fmt (snd (deleteProduct fmt i st))"
  by (simp add: deleteProduct_def)

lemma rendered_toggle: "rendered fmt (toggleSummaryView fmt st)"
  by (simp add: toggleSummaryView_def Let_def)

lemma rendered_window_print: "rendered fmt st \<Longrightarrow> rendered fmt (window_print st)"
  by (simp add: rendered_def window_print_def renderProducts_frame)

lemma rendered_step: "rendered fmt st \<Longrightarrow> rendered fmt (step fmt st a)"
  by (cases a)
    (simp_all add: rendered_addProduct rendered_fillForm rendered_deleteProduct rendered_toggle
      rendered_window_print printQuotation_def)

lemma rendered_run: "rendered fmt st \<Longrightarrow> rendered fmt (run fmt acts st)"
  by (induction acts arbitrary: st) (simp_all add: rendered_step)

lemma rendered_reachable: "rendered fmt (run fmt acts (initial fmt clock page))"
  by (intro rendered_run rendered_initial)

text \<open>
  Claim C7. After any sequence of actions from the loaded page (additions, accepted or
  rejected, removals, toggles, prints) the table body has exactly one row for each
  product of the store; the indices shown are 1, 2, ..., n in this order, and the rows
  follow the order of the store, each with the name and the identifier of its product.
  The index is computed by the rendering: a product has no such field.
\<close>

theorem rows_numbered:
  "length (quotationTableBody (run fmt acts (initial fmt clock page)))
     = length (products (run fmt acts (initial fmt clock page))) \<and>
   map indexCell (quotationTableBody (run fmt acts (initial fmt clock page)))
     = [1..<Suc (length (products (run fmt acts (initial fmt clock page))))] \<and>
   map nameCell (quotationTableBody (run fmt acts (initial fmt clock page)))
     = map name (products (run fmt acts (initial fmt clock page))) \<and>
   map removeArg (quotationTableBody (run fmt acts (initial fmt clock page)))
     = map product_id (products (run fmt acts (initial fmt clock page)))"
  by (simp add: rendered_rows [OF rendered_reachable] tableRows_fields indexCell_tableRows)

text \<open>
  Claim C8. For every state, hence every list of products, the rendered row at 0-based
  index \<open>i\<close> carries the page-break marker exactly when \<open>i\<close> is 9; the number of
  marked rows is one when there are at least ten products and none otherwise.
\<close>

theorem page_break_on_tenth_row:
  "(\<forall>i < length (quotationTableBody (renderProducts fmt st)).
      pageBreak (quotationTableBody (renderProducts fmt st) ! i) \<longleftrightarrow> i = 9) \<and>
   length (filter pageBreak (quotationTableBody (renderProducts fmt st)))
     = (if 9 < length (products st) then 1 else 0)"
proof -
  let ?rows = "quotationTableBody (renderProducts fmt st)"
  have nth: "\<forall>i < length ?rows. pageBreak (?rows ! i) \<longleftrightarrow> i = 9"
    by (simp add: nth_tableRows pageBreak_renderRow)
  then have "{i. i < length ?rows \<and> pageBreak (?rows ! i)}
               = (if 9 < length (products st) then {9} else {})"
    by auto
  then have "length (filter pageBreak ?rows) = (if 9 < length (products st) then 1 else 0)"
    by (simp add: length_filter_conv_card)
  with nth show ?thesis by blast
qed

lemma length_seedProducts [simp]: "length (seedProducts clock) = 12"
  by (simp add: seedProducts_def)

text \<open>The loaded page has twelve rows; the tenth alone carries the marker.\<close>

theorem page_break_on_tenth_row_witness:
  "length (quotationTableBody (renderProducts fixed2 (initial fixed2 (\<lambda>k. 1000) blankPage))) = 12 \<and>
   pageBreak (quotationTableBody (renderProducts fixed2 (initial fixed2 (\<lambda>k. 1000) blankPage)) ! 9) \<and>
   \<not> pageBreak (quotationTableBody (renderProducts fixed2 (initial fixed2 (\<lambda>k. 1000) blankPage)) ! 10) \<and>
   length (filter pageBreak
     (quotationTableBody (renderProducts fixed2 (initial fixed2 (\<lambda>k. 1000) blankPage)))) = 1"
proof -
  let ?st = "initial fixed2 (\<lambda>k. 1000) blankPage"
  have n: "length (quotationTableBody (renderProducts fixed2 ?st)) = 12"
    by simp
  from page_break_on_tenth_row [of fixed2 ?st] n
  have "pageBreak (quotationTableBody (renderProducts fixed2 ?st) ! 9)"
    "\<not> pageBreak (quotationTableBody (renderProducts fixed2 ?st) ! 10)"
    "length (filter pageBreak (quotationTableBody (renderProducts fixed2 ?st))) = 1"
    by simp_all
  with n show ?thesis by blast
qed

lemma ids_after_delete:
  "map product_id (products (step fmt st (Delete i)))
     = filter (\<lambda>x. x \<noteq> i) (map product_id (products st))"
  by (simp add: filter_map o_def)

text \<open>
  After a removal, an accepted addition and a rejected one the twelve rows are numbered
  1 to 12 and follow the store.
\<close>

theorem rows_numbered_witness:
  "map indexCell (quotationTableBody
     (run fixed2 [Delete 1002, Add (str ''x'') (str ''10'') (str ''1'') 5000, Add (str ''y'') (str ''0'') (str ''1'') 6000]
        (initial fixed2 (\<lambda>k. 1000) blankPage)))
     = [1, 2, 3, 4, 5, 6, 7, 8, 9, 10, 11, 12] \<and>
   map removeArg (quotationTableBody
     (run fixed2 [Delete 1002, Add (str ''x'') (str ''10'') (str ''1'') 5000, Add (str ''y'') (str ''0'') (str ''1'') 6000]
        (initial fixed2 (\<lambda>k. 1000) blankPage)))
     = [1001, 1003, 1004, 1005, 1006, 1007, 1008, 1009, 1010, 1011, 1012, 5000]"
proof -
  let ?acts = "[Delete 1002, Add (str ''x'') (str ''10'') (str ''1'') 5000, Add (str ''y'') (str ''0'') (str ''1'') 6000]"
  let ?st = "run fixed2 ?acts (initial fixed2 (\<lambda>k. 1000) blankPage)"
  have ok: "trim (str ''x'') \<noteq> []" "\<not> isNaN (parseFloat (str ''10''))"
    "\<not> num_le (parseFloat (str ''10'')) 0" "\<not> isNaN (parseInt (str ''1''))" "\<not> num_le (parseInt (str ''1'')) 0"
    by (simp_all add: parse_examples trim_examples zero_number_def)
  have bad: "num_le (parseFloat (str ''0'')) 0"
    by (simp add: parse_examples trim_examples zero_number_def)
  have rej: "products (step fixed2 s (Add (str ''y'') (str ''0'') (str ''1'') 6000)) = products s" for s
    using addProduct_reject [of "fillForm (str ''y'') (str ''0'') (str ''1'') s" fixed2 6000] bad by simp
  have ids: "map product_id (products ?st)
               = [1001, 1003, 1004, 1005, 1006, 1007, 1008, 1009, 1010, 1011, 1012, 5000]"
    by (simp add: rej products_add_accept ok ids_after_delete seed_ids del: step.simps)
  then have "length (map product_id (products ?st)) = 12" by simp
  then have len: "length (products ?st) = 12" by simp
  have upt: "[1..<Suc 12] = [1, 2, 3, 4, 5, 6, 7, 8, 9, 10, 11, 12::nat]"
    by code_simp
  from rows_numbered [of fixed2 ?acts "\<lambda>k. 1000" blankPage]
  show ?thesis unfolding len ids upt by simp
qed

section \<open>View mode\<close>

lemma headerPrice_toggle:
  "headerPrice (toggleSummaryView fmt st) =
     (if isSummaryMode st then classList_remove (str ''hidden'') (headerPrice st)
      else classList_add (str ''hidden'') (headerPrice st))"
  by (simp add: toggleSummaryView_def Let_def)

lemma footer_toggle:
  "tableFooterCells (toggleSummaryView fmt st) =
     map (\<lambda>cell. Some (if isSummaryMode st then 4 else 3)) (tableFooterCells st)"
  by (simp add: toggleSummaryView_def Let_def)

lemma hidden_classList:
  "(str ''hidden'') \<in> set (classList_add (str ''hidden'') cs)"
  "(str ''hidden'') \<notin> set (classList_remove (str ''hidden'') cs)"
  by (simp_all add: classList_add_def classList_remove_def)

lemma priceClass_rows:
  "map priceClass (tableRows fmt summary ps) =
     replicate (length ps) (if summary then (str ''hidden'') else (str ''hidden lg:table-cell''))"
  by (simp add: tableRows_fields map_replicate_const)

lemma footer_length_toggle [simp]:
  "length (tableFooterCells (toggleSummaryView fmt st)) = length (tableFooterCells st)"
  by (simp add: footer_toggle)

lemma layoutFor_toggle: "layoutFor (\<not> isSummaryMode st) (toggleSummaryView fmt st)"
  by (simp add: layoutFor_def headerPrice_toggle footer_toggle hidden_classList
      priceClass_rows map_replicate_const)

lemma headerFooterMatch_toggle: "headerFooterMatch (toggleSummaryView fmt st)"
  by (simp add: headerFooterMatch_def headerPrice_toggle footer_toggle hidden_classList
      map_replicate_const)

lemma headerFooterMatch_frame:
  "headerFooterMatch (renderProducts fmt st) = headerFooterMatch st"
  "headerFooterMatch (st\<lparr>console := c\<rparr>) = headerFooterMatch st"
  "headerFooterMatch (st\<lparr>printed := pr\<rparr>) = headerFooterMatch st"
  "headerFooterMatch (st\<lparr>products := ps\<rparr>) = headerFooterMatch st"
  "headerFooterMatch (st\<lparr>products := ps, productName := n, unitPrice := u, quantity := q\<rparr>)
     = headerFooterMatch st"
  "headerFooterMatch (fillForm n p q st) = headerFooterMatch st"
  "headerFooterMatch (saveClientInfo st) = headerFooterMatch st"
  by (simp_all add: headerFooterMatch_def fillForm_def saveClientInfo_def Let_def)

lemma headerFooterMatch_addProduct:
  "headerFooterMatch (addProduct fmt now st) = headerFooterMatch st"
  by (simp add: addProduct_def Let_def headerFooterMatch_frame)

lemma headerFooterMatch_step: "headerFooterMatch st \<Longrightarrow> headerFooterMatch (step fmt st a)"
  by (cases a)
    (simp_all add: headerFooterMatch_addProduct headerFooterMatch_frame
      headerFooterMatch_toggle deleteProduct_def printQuotation_def window_print_def)

lemma headerFooterMatch_run: "headerFooterMatch st \<Longrightarrow> headerFooterMatch (run fmt acts st)"
  by (induction acts arbitrary: st) (simp_all add: headerFooterMatch_step)

lemma headerFooterMatch_initial:
  "markupDetailed page \<Longrightarrow> headerFooterMatch (initial fmt clock page)"
  by (simp add: initial_def domContentLoaded_def loadScript_def headerFooterMatch_frame)
     (simp add: headerFooterMatch_def markupDetailed_def)

lemma layoutFor_rendered:
  "rendered fmt st \<Longrightarrow> headerFooterMatch st \<Longrightarrow> layoutFor (isSummaryMode st) st"
  by (simp add: layoutFor_def headerFooterMatch_def rendered_rows priceClass_rows)

text \<open>The script never adds or removes a footer cell.\<close>

lemma footer_length_frame [simp]:
  "length (tableFooterCells (saveClientInfo st)) = length (tableFooterCells st)"
  "length (tableFooterCells (fillForm n p q st)) = length (tableFooterCells st)"
  "length (tableFooterCells (addProduct fmt now st)) = length (tableFooterCells st)"
  "length (tableFooterCells (snd (deleteProduct fmt i st))) = length (tableFooterCells st)"
  "length (tableFooterCells (window_print st)) = length (tableFooterCells st)"
  by (simp_all add: saveClientInfo_def fillForm_def addProduct_def deleteProduct_def
      window_print_def Let_def)

lemma footer_length_step:
  "length (tableFooterCells (step fmt st a)) = length (tableFooterCells st)"
  by (cases a) (simp_all add: printQuotation_def)

lemma footer_length_run:
  "length (tableFooterCells (run fmt acts st)) = length (tableFooterCells st)"
  by (induction acts arbitrary: st) (simp_all add: footer_length_step)

lemma footer_length_initial:
  "length (tableFooterCells (initial fmt clock page)) = length (tableFooterCells page)"
  by (simp add: initial_def domContentLoaded_def loadScript_def)

text \<open>
  Claim C9. A toggle from detailed mode leaves the state in summary mode with the
  \<open>hidden\<close> token on the unit-price header, the class \<open>hidden\<close> on the unit-price cell
  of each of the rows, one for every product of the store, and a span of 3 on each of
  the first footer cells of the page; a second toggle leaves it in detailed mode without
  the token on the header, with the default class \<open>hidden lg:table-cell\<close> on the
  unit-price cell of each of the same rows, and a span of 4 on the same footer cells.
  When the markup of the page starts in the detailed layout, every state reached by any
  sequence of actions has the layout of its view mode on the rows of all its products
  and on all the footer cells of the page.
\<close>

theorem view_mode_layout:
  "(\<not> isSummaryMode st \<longrightarrow>
      isSummaryMode (toggleSummaryView fmt st) \<and>
      (str ''hidden'') \<in> set (headerPrice (toggleSummaryView fmt st)) \<and>
      map priceClass (quotationTableBody (toggleSummaryView fmt st))
        = replicate (length (products st)) (str ''hidden'') \<and>
      tableFooterCells (toggleSummaryView fmt st)
        = replicate (length (tableFooterCells st)) (Some 3) \<and>
      \<not> isSummaryMode (toggleSummaryView fmt (toggleSummaryView fmt st)) \<and>
      (str ''hidden'') \<notin> set (headerPrice (toggleSummaryView fmt (toggleSummaryView fmt st))) \<and>
      map priceClass (quotationTableBody (toggleSummaryView fmt (toggleSummaryView fmt st)))
        = replicate (length (products st)) (str ''hidden lg:table-cell'') \<and>
      tableFooterCells (toggleSummaryView fmt (toggleSummaryView fmt st))
        = replicate (length (tableFooterCells st)) (Some 4)) \<and>
   (isSummaryMode st \<longrightarrow>
      \<not> isSummaryMode (toggleSummaryView fmt st) \<and>
      (str ''hidden'') \<notin> set (headerPrice (toggleSummaryView fmt st)) \<and>
      map priceClass (quotationTableBody (toggleSummaryView fmt st))
        = replicate (length (products st)) (str ''hidden lg:table-cell'') \<and>
      tableFooterCells (toggleSummaryView fmt st)
        = replicate (length (tableFooterCells st)) (Some 4)) \<and>
   (markupDetailed page \<longrightarrow>
      layoutFor (isSummaryMode (run fmt acts (initial fmt clock page)))
        (run fmt acts (initial fmt clock page)) \<and>
      length (quotationTableBody (run fmt acts (initial fmt clock page)))
        = length (products (run fmt acts (initial fmt clock page))) \<and>
      length (tableFooterCells (run fmt acts (initial fmt clock page)))
        = length (tableFooterCells page))"
proof -
  have once: "(str ''hidden'') \<in> set (headerPrice (toggleSummaryView fmt st)) \<and>
      map priceClass (quotationTableBody (toggleSummaryView fmt st))
        = replicate (length (products st)) (str ''hidden'') \<and>
      tableFooterCells (toggleSummaryView fmt st)
        = replicate (length (tableFooterCells st)) (Some 3)"
    if "\<not> isSummaryMode st"
    using that layoutFor_toggle [of st fmt] by (simp add: layoutFor_def)
  have twice: "(str ''hidden'') \<notin> set (headerPrice (toggleSummaryView fmt (toggleSummaryView fmt st))) \<and>
      map priceClass (quotationTableBody (toggleSummaryView fmt (toggleSummaryView fmt st)))
        = replicate (length (products st)) (str ''hidden lg:table-cell'') \<and>
      tableFooterCells (toggleSummaryView fmt (toggleSummaryView fmt st))
        = replicate (length (tableFooterCells st)) (Some 4)"
    if "\<not> isSummaryMode st"
    using that layoutFor_toggle [of "toggleSummaryView fmt st" fmt] by (simp add: layoutFor_def)
  have restore: "(str ''hidden'') \<notin> set (headerPrice (toggleSummaryView fmt st)) \<and>
      map priceClass (quotationTableBody (toggleSummaryView fmt st))
        = replicate (length (products st)) (str ''hidden lg:table-cell'') \<and>
      tableFooterCells (toggleSummaryView fmt st)
        = replicate (length (tableFooterCells st)) (Some 4)"
    if "isSummaryMode st"
    using that layoutFor_toggle [of st fmt] by (simp add: layoutFor_def)
  have reach: "layoutFor (isSummaryMode (run fmt acts (initial fmt clock page)))
        (run fmt acts (initial fmt clock page))" if "markupDetailed page"
    using that
    by (intro layoutFor_rendered [of fmt] rendered_reachable headerFooterMatch_run
        headerFooterMatch_initial)
  have rows: "length (quotationTableBody (run fmt acts (initial fmt clock page)))
        = length (products (run fmt acts (initial fmt clock page)))"
    by (simp add: rendered_rows [OF rendered_reachable])
  have cells: "length (tableFooterCells (run fmt acts (initial fmt clock page)))
        = length (tableFooterCells page)"
    by (simp add: footer_length_run footer_length_initial)
  from once twice restore reach rows cells show ?thesis by simp
qed

text \<open>
  The scenario's page, with its three items and three footer cells: one toggle hides the
  unit price in all three rows and sets the spans to 3, the second restores the class and
  the span of 4; and the loaded page with twelve items, toggled once.
\<close>

theorem view_mode_layout_witness:
  "\<not> isSummaryMode scenarioPage \<and>
   isSummaryMode (toggleSummaryView fixed2 scenarioPage) \<and>
   map priceClass (quotationTableBody (toggleSummaryView fixed2 scenarioPage))
     = [str ''hidden'', str ''hidden'', str ''hidden''] \<and>
   tableFooterCells (toggleSummaryView fixed2 scenarioPage) = [Some 3, Some 3, Some 3] \<and>
   map priceClass
     (quotationTableBody (toggleSummaryView fixed2 (toggleSummaryView fixed2 scenarioPage)))
     = [str ''hidden lg:table-cell'', str ''hidden lg:table-cell'', str ''hidden lg:table-cell''] \<and>
   tableFooterCells (toggleSummaryView fixed2 (toggleSummaryView fixed2 scenarioPage))
     = [Some 4, Some 4, Some 4] \<and>
   markupDetailed markupPage \<and>
   layoutFor True (run fixed2 [Toggle] (initial fixed2 (\<lambda>k. 1000) markupPage)) \<and>
   length (quotationTableBody (run fixed2 [Toggle] (initial fixed2 (\<lambda>k. 1000) markupPage))) = 12"
proof -
  have d: "\<not> isSummaryMode scenarioPage"
    by (simp add: scenarioPage_def blankPage_def)
  have n: "length (products scenarioPage) = 3" "length (tableFooterCells scenarioPage) = 3"
    by (simp_all add: scenarioPage_def scenarioItems_def blankPage_def)
  have m: "markupDetailed markupPage"
    by (simp add: markupDetailed_def markupPage_def blankPage_def)
  have three: "replicate 3 x = [x, x, x]" for x :: 'a
    by (simp add: numeral_3_eq_3)
  from view_mode_layout [of scenarioPage fixed2 markupPage "[Toggle]" "\<lambda>k. 1000"] d
  have a: "isSummaryMode (toggleSummaryView fixed2 scenarioPage)"
    "map priceClass (quotationTableBody (toggleSummaryView fixed2 scenarioPage))
       = replicate (length (products scenarioPage)) (str ''hidden'')"
    "tableFooterCells (toggleSummaryView fixed2 scenarioPage)
       = replicate (length (tableFooterCells scenarioPage)) (Some 3)"
    "map priceClass
       (quotationTableBody (toggleSummaryView fixed2 (toggleSummaryView fixed2 scenarioPage)))
       = replicate (length (products scenarioPage)) (str ''hidden lg:table-cell'')"
    "tableFooterCells (toggleSummaryView fixed2 (toggleSummaryView fixed2 scenarioPage))
       = replicate (length (tableFooterCells scenarioPage)) (Some 4)"
    by blast+
  from view_mode_layout [of scenarioPage fixed2 markupPage "[Toggle]" "\<lambda>k. 1000"] m
  have b: "layoutFor (isSummaryMode (run fixed2 [Toggle] (initial fixed2 (\<lambda>k. 1000) markupPage)))
             (run fixed2 [Toggle] (initial fixed2 (\<lambda>k. 1000) markupPage))"
    "length (quotationTableBody (run fixed2 [Toggle] (initial fixed2 (\<lambda>k. 1000) markupPage)))
       = length (products (run fixed2 [Toggle] (initial fixed2 (\<lambda>k. 1000) markupPage)))"
    by blast+
  from d m a b show ?thesis
    by (simp add: n three)
qed

lemma rendered_totals:
  assumes "rendered fmt st"
  shows "subTotal (renderProducts fmt st) = subTotal st"
    "vatAmount (renderProducts fmt st) = vatAmount st"
    "grandTotal (renderProducts fmt st) = grandTotal st"
  using assms by (simp_all add: rendered_def)

lemma totals_toggle:
  "subTotal (toggleSummaryView fmt st) = subTotal (renderProducts fmt st)"
  "vatAmount (toggleSummaryView fmt st) = vatAmount (renderProducts fmt st)"
  "grandTotal (toggleSummaryView fmt st) = grandTotal (renderProducts fmt st)"
  by (simp_all add: toggleSummaryView_def renderProducts_def calculateTotals_def Let_def)

lemma toggle_frame:
  "clientName (toggleSummaryView fmt st) = clientName st"
  "clientAddress (toggleSummaryView fmt st) = clientAddress st"
  "clientContact (toggleSummaryView fmt st) = clientContact st"
  "displayClientName (toggleSummaryView fmt st) = displayClientName st"
  "displayClientAddress (toggleSummaryView fmt st) = displayClientAddress st"
  "displayClientContact (toggleSummaryView fmt st) = displayClientContact st"
  "productName (toggleSummaryView fmt st) = productName st"
  "unitPrice (toggleSummaryView fmt st) = unitPrice st"
  "quantity (toggleSummaryView fmt st) = quantity st"
  "console (toggleSummaryView fmt st) = console st"
  by (simp_all add: toggleSummaryView_def renderProducts_def calculateTotals_def Let_def)

lemma toggle_record:
  assumes "rendered fmt st"
  shows "toggleSummaryView fmt st =
    st\<lparr>isSummaryMode := \<not> isSummaryMode st,
       quotationTableBody := tableRows fmt (\<not> isSummaryMode st) (products st),
       summaryButton := (if isSummaryMode st then (str ''Toggle Summary View (Show Totals Only)'')
                         else (str ''Exit Summary View (Show Details)'')),
       headerPrice := (if isSummaryMode st then classList_remove (str ''hidden'') (headerPrice st)
                       else classList_add (str ''hidden'') (headerPrice st)),
       tableFooterCells := map (\<lambda>cell. Some (if isSummaryMode st then 4 else 3))
                               (tableFooterCells st)\<rparr>"
proof -
  have t: "subTotal (calculateTotals fmt st) = subTotal st"
    "vatAmount (calculateTotals fmt st) = vatAmount st"
    "grandTotal (calculateTotals fmt st) = grandTotal st"
    using rendered_totals [OF assms]
    by (simp_all add: renderProducts_def calculateTotals_def Let_def)
  then show ?thesis
    by (simp add: toggleSummaryView_def renderProducts_def calculateTotals_def Let_def)
qed

text \<open>
  Claim C10. A toggle never changes the products: identifiers, names, prices,
  quantities and order are the same before and after, and so are the subtotal, the
  VAT and the grand total, which the toggle displays again from the same products. In
  every state reached from the loaded page the three displayed figures after the toggle
  are those displayed before, and the toggle changes nothing but the view-mode flag,
  the label of the button, the class tokens of the unit-price header, the span of the
  footer cells and the class of the unit-price cells in the rows.
\<close>

theorem toggle_keeps_items_and_totals:
  "products (toggleSummaryView fmt st) = products st \<and>
   subTotal (toggleSummaryView fmt st) = subTotal (calculateTotals fmt st) \<and>
   vatAmount (toggleSummaryView fmt st) = vatAmount (calculateTotals fmt st) \<and>
   grandTotal (toggleSummaryView fmt st) = grandTotal (calculateTotals fmt st) \<and>
   subTotal (toggleSummaryView fmt (run fmt acts (initial fmt clock page)))
     = subTotal (run fmt acts (initial fmt clock page)) \<and>
   vatAmount (toggleSummaryView fmt (run fmt acts (initial fmt clock page)))
     = vatAmount (run fmt acts (initial fmt clock page)) \<and>
   grandTotal (toggleSummaryView fmt (run fmt acts (initial fmt clock page)))
     = grandTotal (run fmt acts (initial fmt clock page)) \<and>
   toggleSummaryView fmt (run fmt acts (initial fmt clock page)) =
     (run fmt acts (initial fmt clock page))
       \<lparr>isSummaryMode := \<not> isSummaryMode (run fmt acts (initial fmt clock page)),
        quotationTableBody :=
          tableRows fmt (\<not> isSummaryMode (run fmt acts (initial fmt clock page)))
            (products (run fmt acts (initial fmt clock page))),
        summaryButton :=
          (if isSummaryMode (run fmt acts (initial fmt clock page))
           then (str ''Toggle Summary View (Show Totals Only)'')
           else (str ''Exit Summary View (Show Details)'')),
        headerPrice :=
          (if isSummaryMode (run fmt acts (initial fmt clock page))
           then classList_remove (str ''hidden'') (headerPrice (run fmt acts (initial fmt clock page)))
           else classList_add (str ''hidden'') (headerPrice (run fmt acts (initial fmt clock page)))),
        tableFooterCells :=
          map (\<lambda>cell. Some (if isSummaryMode (run fmt acts (initial fmt clock page))
                              then 4 else 3))
              (tableFooterCells (run fmt acts (initial fmt clock page)))\<rparr>"
proof -
  have a: "subTotal (toggleSummaryView fmt st) = subTotal (calculateTotals fmt st)"
    "vatAmount (toggleSummaryView fmt st) = vatAmount (calculateTotals fmt st)"
    "grandTotal (toggleSummaryView fmt st) = grandTotal (calculateTotals fmt st)"
    by (simp_all add: toggleSummaryView_def renderProducts_def calculateTotals_def Let_def)
  have r: "rendered fmt (run fmt acts (initial fmt clock page))"
    by (rule rendered_reachable)
  have b: "subTotal (toggleSummaryView fmt (run fmt acts (initial fmt clock page)))
             = subTotal (run fmt acts (initial fmt clock page))"
    "vatAmount (toggleSummaryView fmt (run fmt acts (initial fmt clock page)))
       = vatAmount (run fmt acts (initial fmt clock page))"
    "grandTotal (toggleSummaryView fmt (run fmt acts (initial fmt clock page)))
       = grandTotal (run fmt acts (initial fmt clock page))"
    by (simp_all add: totals_toggle rendered_totals [OF r])
  note c = toggle_record [OF r]
  have p: "products (toggleSummaryView fmt st) = products st"
    by simp
  from p a b c show ?thesis by blast
qed

theorem toggle_keeps_items_and_totals_witness:
  "products (toggleSummaryView fixed2 scenarioPage) = scenarioItems \<and>
   subTotal (toggleSummaryView fixed2 scenarioPage) = subTotal (calculateTotals fixed2 scenarioPage) \<and>
   subTotal (toggleSummaryView fixed2 (initial fixed2 (\<lambda>k. 1000) blankPage))
     = subTotal (initial fixed2 (\<lambda>k. 1000) blankPage)"
proof -
  have p: "products scenarioPage = scenarioItems"
    by (simp add: scenarioPage_def)
  from toggle_keeps_items_and_totals [of fixed2 scenarioPage "[]" "\<lambda>k. 1000" blankPage]
  show ?thesis by (simp add: p)
qed

section \<open>Totals\<close>

lemma subtotal_fold:
  "foldl (\<lambda>acc p. acc + price p * qty p) a ps = foldl (+) a (map (\<lambda>p. price p * qty p) ps)"
  by (simp add: foldl_map)

lemma natural_terms_nonneg:
  "\<forall>p\<in>set ps. isNatural (price p) \<and> isNatural (qty p) \<Longrightarrow>
   0 \<le> (\<Sum>p\<leftarrow>ps. ratOf (price p) * ratOf (qty p))"
proof (induction ps)
  case Nil
  show ?case by simp
next
  case (Cons p ps)
  from Cons.prems have "0 \<le> ratOf (price p)" "0 \<le> ratOf (qty p)"
    using isNatural_Fin by auto
  then have "0 \<le> ratOf (price p) * ratOf (qty p)" by simp
  with Cons show ?case by simp
qed

text \<open>
  With natural prices and quantities and an exact total below \<open>2^53\<close> no operation of
  the accumulation rounds: the running sum is the exact sum.
\<close>

lemma exact_fold:
  assumes "isNatural a" "\<forall>p\<in>set ps. isNatural (price p) \<and> isNatural (qty p)"
    and "ratOf a + (\<Sum>p\<leftarrow>ps. ratOf (price p) * ratOf (qty p)) < 2 ^ 53"
  shows "foldl (\<lambda>acc p. acc + price p * qty p) a ps
           = Fin (ratOf a + (\<Sum>p\<leftarrow>ps. ratOf (price p) * ratOf (qty p)))"
  using assms
proof (induction ps arbitrary: a)
  case Nil
  then show ?case using isNatural_Fin [of a] by simp
next
  case (Cons p ps)
  let ?x = "ratOf (price p) * ratOf (qty p)"
  let ?rest = "\<Sum>p\<leftarrow>ps. ratOf (price p) * ratOf (qty p)"
  from Cons.prems(2) have nat_p: "isNatural (price p)" "isNatural (qty p)"
    and nat_ps: "\<forall>p\<in>set ps. isNatural (price p) \<and> isNatural (qty p)"
    by simp_all
  have rest: "0 \<le> ?rest" using nat_ps by (rule natural_terms_nonneg)
  have a0: "0 \<le> ratOf a" using Cons.prems(1) isNatural_Fin by auto
  have x0: "0 \<le> ?x" using nat_p isNatural_Fin by auto
  from Cons.prems(3) have total: "ratOf a + ?x + ?rest < 2 ^ 53" by simp
  from total rest a0 have "?x < 2 ^ 53" by linarith
  from mul_exact [OF nat_p this]
  have x: "price p * qty p = Fin ?x" and nat_x: "isNatural (price p * qty p)" .
  from total rest have "ratOf a + ratOf (price p * qty p) < 2 ^ 53"
    unfolding x by simp
  from add_exact [OF Cons.prems(1) nat_x this]
  have s: "a + price p * qty p = Fin (ratOf a + ?x)"
    and nat_s: "isNatural (a + price p * qty p)"
    unfolding x by simp_all
  have "foldl (\<lambda>acc p. acc + price p * qty p) (a + price p * qty p) ps
          = Fin (ratOf (a + price p * qty p) + ?rest)"
    using nat_s nat_ps total unfolding s by (intro Cons.IH) (simp_all add: s)
  then show ?case by (simp add: s add.assoc)
qed

lemma floor_examples:
  "\<lfloor>(51000001::rat) / 2\<rfloor> = 25500000"
  "\<lfloor>(9180001::rat) / 2\<rfloor> = 4590000"
  "\<lfloor>(60180001::rat) / 2\<rfloor> = 30090000"
  "\<lfloor>(251::rat) / 2\<rfloor> = 125"
  "\<lfloor>(46::rat) / 2\<rfloor> = 23"
  "\<lfloor>(51791395714760699 :: rat) / 2251799813685248\<rfloor> = 22"
  by (simp_all add: floor_eq_iff)

lemma fixed2_examples:
  "fixed2 (Fin 255000) = str ''255000.00''"
  "fixed2 (Fin 45900) = str ''45900.00''"
  "fixed2 (Fin 300900) = str ''300900.00''"
  "fixed2 (Fin (5 / 4)) = str ''1.25''"
  "fixed2 (Fin (5 / 4 * (18 / 100))) = str ''0.23''"
  "fixed2 (Fin (8106479329266892 / 2 ^ 55)) = str ''0.22''"
  by (simp_all add: fixed2_def floor_examples digitChar_def str_def)

text \<open>
  Claim C1 fails as stated. One item at 1.25 with quantity 1 is accepted; the VAT the
  code computes is the binary64 product of 1.25 and the binary64 constant nearest 0.18,
  a Number just below 0.225, and is displayed as 0.22, whereas the subtotal times 0.18
  is 0.225 and would be displayed as 0.23.
\<close>

theorem calculateTotals_rounds:
  "subTotal (step fixed2 blankPage (Add (str ''x'') (str ''1.25'') (str ''1'') 7)) = str ''1.25'' \<and>
   vatAmount (step fixed2 blankPage (Add (str ''x'') (str ''1.25'') (str ''1'') 7)) = str ''0.22'' \<and>
   fixed2 (Fin (5 / 4 * (18 / 100))) = str ''0.23''"
proof -
  have ok: "trim (str ''x'') \<noteq> []" "\<not> isNaN (parseFloat (str ''1.25''))"
    "\<not> num_le (parseFloat (str ''1.25'')) 0" "\<not> isNaN (parseInt (str ''1''))"
    "\<not> num_le (parseInt (str ''1'')) 0"
    by (simp_all add: parse_examples parse_rounding_examples trim_examples zero_number_def)
  have line: "Fin (5 / 4) * Fin 1 = Fin (5 / 4)"
    by (simp add: times_number_def num_mul_def round64_5_4)
  have sub: "(0::number) + Fin (5 / 4) = Fin (5 / 4)"
    by (simp add: plus_number_def num_add_def zero_number_def round64_5_4)
  have st: "step fixed2 blankPage (Add (str ''x'') (str ''1.25'') (str ''1'') 7) =
      renderProducts fixed2
        ((fillForm (str ''x'') (str ''1.25'') (str ''1'') blankPage)
          \<lparr>products := [\<lparr>product_id = 7, name = str ''x'', price = Fin (5 / 4), qty = Fin 1\<rparr>],
           productName := [], unitPrice := [], quantity := str ''1''\<rparr>)"
    using addProduct_accept [of "fillForm (str ''x'') (str ''1.25'') (str ''1'') blankPage" fixed2 7] ok
    by (simp add: parse_examples parse_rounding_examples trim_examples blankPage_def fillForm_def)
  have s: "subTotal (step fixed2 blankPage (Add (str ''x'') (str ''1.25'') (str ''1'') 7))
             = fixed2 (Fin (5 / 4))"
    unfolding st by (simp add: renderProducts_def calculateTotals_def Let_def line sub)
  have v: "vatAmount (step fixed2 blankPage (Add (str ''x'') (str ''1.25'') (str ''1'') 7))
             = fixed2 (Fin (8106479329266892 / 2 ^ 55))"
    unfolding st
    by (simp add: renderProducts_def calculateTotals_def Let_def line sub vat_of_5_4)
  show ?thesis
    unfolding s v by (simp only: fixed2_examples simp_thms)
qed

text \<open>
  Claim C1, as the code has it. For every item list \<open>calculateTotals\<close> displays the
  formatting of three Numbers computed in the binary64 arithmetic of the language: the
  subtotal is the running sum, from 0 and in list order, of the products of unit price
  and quantity; the VAT is the product of the subtotal and the binary64 constant
  nearest 0.18, which is 6485183463413514 / 2^55; the grand total is the sum of the
  subtotal and the VAT. Each sum and product is rounded to the nearest binary64 value
  and nothing else is rounded before the formatter is applied. When every price and
  quantity is a natural number and the exact total is below 2^53, no step of the
  accumulation rounds and the subtotal is exactly the sum of unit price times quantity.
\<close>

theorem calculateTotals_binary64:
  "subTotal (calculateTotals fmt st)
     = fmt (foldl (+) 0 (map (\<lambda>p. price p * qty p) (products st))) \<and>
   vatAmount (calculateTotals fmt st)
     = fmt (foldl (+) 0 (map (\<lambda>p. price p * qty p) (products st)) * VAT_RATE) \<and>
   grandTotal (calculateTotals fmt st)
     = fmt (foldl (+) 0 (map (\<lambda>p. price p * qty p) (products st))
            + foldl (+) 0 (map (\<lambda>p. price p * qty p) (products st)) * VAT_RATE) \<and>
   VAT_RATE = round64 (18 / 100) \<and>
   VAT_RATE = Fin (6485183463413514 / 2 ^ 55) \<and>
   ((\<forall>p\<in>set (products st). isNatural (price p) \<and> isNatural (qty p)) \<and>
    (\<Sum>p\<leftarrow>products st. ratOf (price p) * ratOf (qty p)) < 2 ^ 53 \<longrightarrow>
      foldl (+) 0 (map (\<lambda>p. price p * qty p) (products st))
        = Fin (\<Sum>p\<leftarrow>products st. ratOf (price p) * ratOf (qty p)))"
proof -
  have shown:
    "subTotal (calculateTotals fmt st)
       = fmt (foldl (+) 0 (map (\<lambda>p. price p * qty p) (products st)))"
    "vatAmount (calculateTotals fmt st)
       = fmt (foldl (+) 0 (map (\<lambda>p. price p * qty p) (products st)) * VAT_RATE)"
    "grandTotal (calculateTotals fmt st)
       = fmt (foldl (+) 0 (map (\<lambda>p. price p * qty p) (products st))
              + foldl (+) 0 (map (\<lambda>p. price p * qty p) (products st)) * VAT_RATE)"
    by (simp_all add: calculateTotals_def Let_def subtotal_fold)
  have exact: "foldl (+) 0 (map (\<lambda>p. price p * qty p) (products st))
        = Fin (\<Sum>p\<leftarrow>products st. ratOf (price p) * ratOf (qty p))"
    if "(\<forall>p\<in>set (products st). isNatural (price p) \<and> isNatural (qty p)) \<and>
        (\<Sum>p\<leftarrow>products st. ratOf (price p) * ratOf (qty p)) < 2 ^ 53"
  proof -
    have "foldl (\<lambda>acc p. acc + price p * qty p) 0 (products st)
            = Fin (ratOf 0 + (\<Sum>p\<leftarrow>products st. ratOf (price p) * ratOf (qty p)))"
      using that by (intro exact_fold) (simp_all add: zero_number_def)
    then show ?thesis
      by (simp add: subtotal_fold zero_number_def)
  qed
  from shown exact VAT_RATE_def VAT_RATE_value show ?thesis by blast
qed

text \<open>
  The scenario of the specification: License 85000, Service 50000 and Module 120000,
  one of each, give exactly 255000.00, 45900.00 and 300900.00.
\<close>

theorem calculateTotals_binary64_witness:
  "list_all (\<lambda>p. isNatural (price p) \<and> isNatural (qty p)) (products scenarioPage) \<and>
   (\<Sum>p\<leftarrow>products scenarioPage. ratOf (price p) * ratOf (qty p)) = 255000 \<and>
   subTotal (calculateTotals fixed2 scenarioPage) = str ''255000.00'' \<and>
   vatAmount (calculateTotals fixed2 scenarioPage) = str ''45900.00'' \<and>
   grandTotal (calculateTotals fixed2 scenarioPage) = str ''300900.00''"
proof -
  let ?S = "foldl (+) 0 (map (\<lambda>p. price p * qty p) (products scenarioPage))"
  have nat: "\<forall>p\<in>set (products scenarioPage). isNatural (price p) \<and> isNatural (qty p)"
    by (simp add: scenarioPage_def scenarioItems_def)
  have total: "(\<Sum>p\<leftarrow>products scenarioPage. ratOf (price p) * ratOf (qty p)) = 255000"
    by (simp add: scenarioPage_def scenarioItems_def)
  note inst = calculateTotals_binary64 [of fixed2 scenarioPage]
  from inst nat total have S: "?S = Fin 255000" by simp
  have g: "Fin 255000 + Fin 45900 = Fin 300900"
    using add_exact(1) [of "Fin 255000" "Fin 45900"] by simp
  from inst have "subTotal (calculateTotals fixed2 scenarioPage) = fixed2 ?S"
    "vatAmount (calculateTotals fixed2 scenarioPage) = fixed2 (?S * VAT_RATE)"
    "grandTotal (calculateTotals fixed2 scenarioPage) = fixed2 (?S + ?S * VAT_RATE)"
    by blast+
  then have "subTotal (calculateTotals fixed2 scenarioPage) = str ''255000.00''"
    "vatAmount (calculateTotals fixed2 scenarioPage) = str ''45900.00''"
    "grandTotal (calculateTotals fixed2 scenarioPage) = str ''300900.00''"
    unfolding S by (simp_all add: vat_of_255000 g fixed2_examples)
  with nat total show ?thesis by (simp add: list_all_iff)
qed

end
